theory Spec2Isabelle
  imports Complex_Main "HOL-Library.Multiset" "HOL-Library.Log_Nat"
begin

section \<open>JavaScript values\<close>

subsection \<open>Numbers\<close>

text \<open>
  The banking engine is JavaScript, so every amount and balance is an IEEE 754 double: a
  finite value, \<open>Infinity\<close>, \<open>-Infinity\<close> or \<open>NaN\<close>. A finite double is kept as the rational
  number it stands for (the two zeros are one value; they compare equal and the engine
  never divides). An arithmetic operation computes the exact result and rounds it to the
  nearest double, a tie going to the even significand, as IEEE 754 prescribes:
  \<open>roundDouble\<close>. \<open>exponent x\<close> is the integer \<open>e\<close> with \<open>2^e \<le> |x| < 2^(e+1)\<close>; a double has
  53 significant bits, exponents from -1022 to 1023, and below \<open>2^-1022\<close> the fixed spacing
  \<open>2^-1074\<close>; a result of magnitude \<open>2^1024\<close> or more is an infinity.
\<close>

datatype number = Finite rat | Infinity | NegInfinity | NaN

definition roundHalfEven :: "rat \<Rightarrow> int" where
  "roundHalfEven q =
     (let n = \<lfloor>q\<rfloor>; r = q - of_int n
      in if r < 1 / 2 then n else if 1 / 2 < r then n + 1 else if even n then n else n + 1)"

definition pow2 :: "int \<Rightarrow> rat" where
  "pow2 e = (if 0 \<le> e then 2 ^ nat e else 1 / 2 ^ nat (- e))"

definition exponent :: "rat \<Rightarrow> int" where
  "exponent x =
     (let (p, q) = quotient_of \<bar>x\<bar>; e = bitlen p - bitlen q
      in if pow2 e \<le> \<bar>x\<bar> then e else e - 1)"

text \<open>The spacing of the doubles around \<open>x\<close>.\<close>

definition ulp :: "rat \<Rightarrow> rat" where
  "ulp x = pow2 (max (exponent x) (- 1022) - 52)"

definition roundDouble :: "rat \<Rightarrow> number" where
  "roundDouble x =
     (if x = 0 then Finite 0
      else (let r = of_int (roundHalfEven (\<bar>x\<bar> / ulp x)) * ulp x
            in if 1024 \<le> exponent r then (if x < 0 then NegInfinity else Infinity)
               else Finite (if x < 0 then - r else r)))"

text \<open>
  A rational is a double when it is zero or a whole multiple of the spacing at its
  magnitude, below \<open>2^1024\<close>. A decimal literal of the source, such as \<open>0.00167\<close>, denotes
  the double nearest to it.
\<close>

definition isDouble :: "rat \<Rightarrow> bool" where
  "isDouble x =
     (x = 0 \<or> (exponent x < 1024 \<and> \<bar>x\<bar> / ulp x = of_int \<lfloor>\<bar>x\<bar> / ulp x\<rfloor>))"

definition literal :: "rat \<Rightarrow> number" where
  "literal x = roundDouble x"

text \<open>The operators \<open>-x\<close>, \<open>x + y\<close>, \<open>x - y\<close>, \<open>x * y\<close>, \<open>x < y\<close>, \<open>x > y\<close> and \<open>x <= y\<close>.\<close>

fun num_neg :: "number \<Rightarrow> number" where
  "num_neg (Finite x) = Finite (- x)"
| "num_neg Infinity = NegInfinity"
| "num_neg NegInfinity = Infinity"
| "num_neg NaN = NaN"

fun num_add :: "number \<Rightarrow> number \<Rightarrow> number" where
  "num_add (Finite x) (Finite y) = roundDouble (x + y)"
| "num_add NaN b = NaN"
| "num_add a NaN = NaN"
| "num_add Infinity NegInfinity = NaN"
| "num_add NegInfinity Infinity = NaN"
| "num_add Infinity b = Infinity"
| "num_add a Infinity = Infinity"
| "num_add NegInfinity b = NegInfinity"
| "num_add a NegInfinity = NegInfinity"

definition num_sub :: "number \<Rightarrow> number \<Rightarrow> number" where
  "num_sub a b = num_add a (num_neg b)"

fun num_mul :: "number \<Rightarrow> number \<Rightarrow> number" where
  "num_mul (Finite x) (Finite y) = roundDouble (x * y)"
| "num_mul NaN b = NaN"
| "num_mul a NaN = NaN"
| "num_mul (Finite x) b =
     (if x = 0 then NaN else if (0 < x) = (b = Infinity) then Infinity else NegInfinity)"
| "num_mul a (Finite y) =
     (if y = 0 then NaN else if (0 < y) = (a = Infinity) then Infinity else NegInfinity)"
| "num_mul a b = (if a = b then Infinity else NegInfinity)"

fun num_lt :: "number \<Rightarrow> number \<Rightarrow> bool" where
  "num_lt NaN b = False"
| "num_lt a NaN = False"
| "num_lt (Finite x) (Finite y) = (x < y)"
| "num_lt NegInfinity b = (b \<noteq> NegInfinity)"
| "num_lt a Infinity = (a \<noteq> Infinity)"
| "num_lt a b = False"

definition num_gt :: "number \<Rightarrow> number \<Rightarrow> bool" where
  "num_gt a b = num_lt b a"

definition num_le :: "number \<Rightarrow> number \<Rightarrow> bool" where
  "num_le a b = (num_lt a b \<or> (a = b \<and> a \<noteq> NaN))"

subsection \<open>Strings and errors\<close>

text \<open>
  A string is the sequence of the bytes of its UTF-8 encoding, so that a character
  outside ASCII is two or three bytes. \<open>String.prototype.trim\<close> removes, from both ends,
  the characters of the ECMAScript classes \<open>WhiteSpace\<close> and \<open>LineTerminator\<close>: U+0009 to
  U+000D, U+0020, U+00A0, U+1680, U+2000 to U+200A, U+2028, U+2029, U+202F, U+205F, U+3000
  and U+FEFF. \<open>String.prototype.toUpperCase\<close> follows the Unicode case mappings; the
  functions that call it take it as the argument \<open>toUpperCase\<close>, and \<open>asciiUpperCase\<close> is
  what it does on a string of ASCII characters.
\<close>

definition whiteSpace :: "string list" where
  "whiteSpace =
     [[CHR 0x09], [CHR 0x0A], [CHR 0x0B], [CHR 0x0C], [CHR 0x0D], [CHR 0x20],
      [CHR 0xC2, CHR 0xA0], [CHR 0xE1, CHR 0x9A, CHR 0x80],
      [CHR 0xE2, CHR 0x80, CHR 0x80], [CHR 0xE2, CHR 0x80, CHR 0x81],
      [CHR 0xE2, CHR 0x80, CHR 0x82], [CHR 0xE2, CHR 0x80, CHR 0x83],
      [CHR 0xE2, CHR 0x80, CHR 0x84], [CHR 0xE2, CHR 0x80, CHR 0x85],
      [CHR 0xE2, CHR 0x80, CHR 0x86], [CHR 0xE2, CHR 0x80, CHR 0x87],
      [CHR 0xE2, CHR 0x80, CHR 0x88], [CHR 0xE2, CHR 0x80, CHR 0x89],
      [CHR 0xE2, CHR 0x80, CHR 0x8A], [CHR 0xE2, CHR 0x80, CHR 0xA8],
      [CHR 0xE2, CHR 0x80, CHR 0xA9], [CHR 0xE2, CHR 0x80, CHR 0xAF],
      [CHR 0xE2, CHR 0x81, CHR 0x9F], [CHR 0xE3, CHR 0x80, CHR 0x80],
      [CHR 0xEF, CHR 0xBB, CHR 0xBF]]"

text \<open>Removing, from the front of \<open>s\<close>, every leading occurrence of one of the sequences \<open>ws\<close>.\<close>

function stripLeading :: "string list \<Rightarrow> string \<Rightarrow> string" where
  "stripLeading ws s =
     (case List.find (\<lambda>w. w \<noteq> [] \<and> take (length w) s = w) ws of
        None \<Rightarrow> s
      | Some w \<Rightarrow> stripLeading ws (drop (length w) s))"
  by pat_completeness auto
termination
proof (relation "measure (\<lambda>(ws, s). length s)")
  show "wf (measure (\<lambda>(ws, s). length s))" by simp
next
  fix ws :: "string list" and s w :: string
  assume "List.find (\<lambda>w. w \<noteq> [] \<and> take (length w) s = w) ws = Some w"
  then have w: "w \<noteq> []" "take (length w) s = w"
    by (auto simp: find_Some_iff)
  have "length (take (length w) s) = length w" using w(2) by simp
  then have "length w \<le> length s" by simp
  then show "((ws, drop (length w) s), (ws, s)) \<in> measure (\<lambda>(ws, s). length s)"
    using w(1) by (cases w) auto
qed

definition trim :: "string \<Rightarrow> string" where
  "trim s = rev (stripLeading (map rev whiteSpace) (rev (stripLeading whiteSpace s)))"

definition asciiUpperChar :: "char \<Rightarrow> char" where
  "asciiUpperChar c =
     (case map_of (zip ''abcdefghijklmnopqrstuvwxyz'' ''ABCDEFGHIJKLMNOPQRSTUVWXYZ'') c of
        None \<Rightarrow> c | Some u \<Rightarrow> u)"

definition asciiUpperCase :: "string \<Rightarrow> string" where
  "asciiUpperCase s = map asciiUpperChar s"

text \<open>
  An argument that the code tests with \<open>typeof value !== "number"\<close> is a \<open>jsval\<close>: a number
  or anything else. A \<open>throw new Error(msg)\<close> is the value \<open>Inl (Error msg)\<close>; every
  operation returns its outcome together with the state it leaves behind, so that what an
  exception leaves of the account can be stated.
\<close>

datatype jsval = JNum number | JOther

datatype error = Error string

text \<open>A string-valued property is truthy when it is present and not empty.\<close>

definition truthy :: "string option \<Rightarrow> bool" where
  "truthy v = (case v of None \<Rightarrow> False | Some s \<Rightarrow> s \<noteq> [])"

subsection \<open>utils/validators.js\<close>

text \<open>\<open>requireNonEmptyString\<close>: the value is \<open>None\<close> when it is not a string.\<close>

definition requireNonEmptyString :: "string option \<Rightarrow> string \<Rightarrow> error + string" where
  "requireNonEmptyString v fieldName =
     (case v of
        None \<Rightarrow> Inl (Error (fieldName @ '' must be a string.''))
      | Some s \<Rightarrow>
          (let trimmed = trim s
           in if trimmed = [] then Inl (Error (fieldName @ '' is required.''))
              else Inr trimmed))"

definition requirePositiveNumber :: "jsval \<Rightarrow> string \<Rightarrow> error + number" where
  "requirePositiveNumber v fieldName =
     (case v of
        JOther \<Rightarrow> Inl (Error (fieldName @ '' must be a number.''))
      | JNum x \<Rightarrow>
          (if x = NaN then Inl (Error (fieldName @ '' must be a number.''))
           else if num_le x (Finite 0)
           then Inl (Error (fieldName @ '' must be greater than zero.''))
           else Inr x))"

section \<open>Data model\<close>

text \<open>
  A transaction object. \<open>penalty\<close>, \<open>to\<close> and \<open>from\<close> exist on some record types only;
  the field \<open>from\<close> is written \<open>from'\<close>. \<open>date\<close> is the string the record carries.
\<close>

record transaction =
  type :: string
  amount :: number
  date :: string
  newBalance :: number
  penalty :: "number option"
  to :: "string option"
  from' :: "string option"

record statusChange =
  sc_action :: string
  sc_by :: string
  sc_date :: string

text \<open>
  An account object. \<open>transactions\<close>, \<open>status\<close> and \<open>statusHistory\<close> are absent (\<open>None\<close>)
  on an account fresh from the registry and are created on first use.
\<close>

record account =
  accountNumber :: "string option"
  firstName :: string
  lastName :: string
  balance :: number
  createdAt :: string
  transactions :: "transaction list option"
  status :: "string option"
  statusHistory :: "statusChange list option"

text \<open>The objects the operations return; a field that the object lacks is \<open>None\<close>.\<close>

datatype notice = BelowThreshold number | LowBalanceLog number

record summary =
  sum_accountNumber :: "string option"
  sum_balance :: number
  sum_transactions :: "transaction list"
  interestApplied :: "number option"
  message :: "notice option"

text \<open>The sequence of transactions of an account, empty while the array is absent.\<close>

definition txns :: "account \<Rightarrow> transaction list" where
  "txns a = (case transactions a of None \<Rightarrow> [] | Some ts \<Rightarrow> ts)"

definition ensureTransactions :: "account \<Rightarrow> account" where
  "ensureTransactions a =
     (case transactions a of None \<Rightarrow> a\<lparr>transactions := Some []\<rparr> | Some ts \<Rightarrow> a)"

definition push :: "transaction \<Rightarrow> account \<Rightarrow> account" where
  "push t a = a\<lparr>transactions := Some (txns a @ [t])\<rparr>"

definition summary_of :: "account \<Rightarrow> summary" where
  "summary_of a =
     \<lparr>sum_accountNumber = accountNumber a, sum_balance = balance a,
      sum_transactions = txns a, interestApplied = None, message = None\<rparr>"

section \<open>models/accountStore.js\<close>

text \<open>
  \<open>generateUniqueAccountNumber\<close> draws random ten-digit strings until one is not taken.
  The draws are an argument; the result is \<open>None\<close> when every draw given collides (the
  loop would go on).
\<close>

record accountData =
  data_firstName :: "string option"
  data_lastName :: "string option"
  initialDeposit :: jsval

fun generateUniqueAccountNumber :: "account list \<Rightarrow> string list \<Rightarrow> string option" where
  "generateUniqueAccountNumber accounts [] = None"
| "generateUniqueAccountNumber accounts (n # draws) =
     (if list_ex (\<lambda>acc. accountNumber acc = Some n) accounts
      then generateUniqueAccountNumber accounts draws else Some n)"

definition generateBankAccount ::
  "string \<Rightarrow> string list \<Rightarrow> account list \<Rightarrow> accountData option
     \<Rightarrow> ((error + account) \<times> account list) option" where
  "generateBankAccount now draws accounts accountData =
     (case accountData of
        None \<Rightarrow> Some (Inl (Error ''Account data is required.''), accounts)
      | Some d \<Rightarrow>
         (case requireNonEmptyString (data_firstName d) ''First name'' of
            Inl e \<Rightarrow> Some (Inl e, accounts)
          | Inr fname \<Rightarrow>
             (case requireNonEmptyString (data_lastName d) ''Last name'' of
                Inl e \<Rightarrow> Some (Inl e, accounts)
              | Inr lname \<Rightarrow>
                 (case initialDeposit d of
                    JOther \<Rightarrow> Some (Inl (Error ''Initial deposit must be a number.''),
                                accounts)
                  | JNum dep \<Rightarrow>
                      (if dep = NaN
                       then Some (Inl (Error ''Initial deposit must be a number.''), accounts)
                       else if num_lt dep (Finite 50)
                       then Some (Inl (Error ''The initial deposit must be at least $50.''),
                                  accounts)
                       else (case generateUniqueAccountNumber accounts draws of
                               None \<Rightarrow> None
                             | Some n \<Rightarrow>
                                 (let newAccount =
                                    \<lparr>accountNumber = Some n, firstName = fname, lastName = lname,
                                     balance = dep, createdAt = now, transactions = None,
                                     status = None, statusHistory = None\<rparr>
                                  in Some (Inr newAccount, accounts @ [newAccount]))))))))"

section \<open>services/transactionService.js\<close>

text \<open>
  Each operation takes the value of \<open>new Date().toISOString()\<close> at the moment it records
  (\<open>now\<close>) and returns the value or exception of the call, paired with the account as the
  call leaves it.
\<close>

definition addDeposit :: "string \<Rightarrow> account \<Rightarrow> jsval \<Rightarrow> (error + account) \<times> account" where
  "addDeposit now account v =
     (case requirePositiveNumber v ''Deposit amount'' of
        Inl e \<Rightarrow> (Inl e, account)
      | Inr amt \<Rightarrow>
          (let a1 = ensureTransactions account;
               transaction = \<lparr>type = ''DEPOSIT'', amount = amt, date = now,
                              newBalance = num_add (balance a1) amt, penalty = None,
                              to = None, from' = None\<rparr>;
               a2 = push transaction a1;
               a3 = a2\<lparr>balance := num_add (balance a2) amt\<rparr>
           in (Inr a3, a3)))"

definition withdrawal :: "string \<Rightarrow> account \<Rightarrow> jsval \<Rightarrow> (error + summary) \<times> account" where
  "withdrawal now account v =
     (case requirePositiveNumber v ''Withdrawal amount'' of
        Inl e \<Rightarrow> (Inl e, account)
      | Inr amt \<Rightarrow>
          (let a1 = ensureTransactions account
           in if num_gt amt (balance a1)
              then (let pen = Finite 5;
                        a2 = a1\<lparr>balance := num_sub (balance a1) pen\<rparr>;
                        a3 = push \<lparr>type = ''OVERDRAFT_ATTEMPT'', amount = amt, date = now,
                                   newBalance = balance a2, penalty = Some pen,
                                   to = None, from' = None\<rparr> a2
                    in (Inr (summary_of a3), a3))
              else (let a2 = a1\<lparr>balance := num_sub (balance a1) amt\<rparr>;
                        a3 = push \<lparr>type = ''WITHDRAWAL'', amount = amt, date = now,
                                   newBalance = balance a2, penalty = None,
                                   to = None, from' = None\<rparr> a2
                    in (Inr (summary_of a3), a3))))"

text \<open>
  \<open>transferMoney\<close> works on two account objects that may be one and the same, so the
  accounts live in a store and the arguments are references (\<open>None\<close> for \<open>null\<close> or
  \<open>undefined\<close>). \<open>now1\<close> and \<open>now2\<close> are the two clock readings.
\<close>

type_synonym ref = nat
type_synonym heap = "ref \<Rightarrow> account"

fun transferMoney ::
  "string \<Rightarrow> string \<Rightarrow> heap \<Rightarrow> ref option \<Rightarrow> ref option \<Rightarrow> jsval
     \<Rightarrow> (error + summary \<times> summary) \<times> heap" where
  "transferMoney now1 now2 h (Some f) (Some t) v =
     (if \<not> truthy (accountNumber (h f)) \<or> \<not> truthy (accountNumber (h t))
      then (Inl (Error ''Account must be available!''), h)
      else
       (case requirePositiveNumber v ''Amount'' of
          Inl e \<Rightarrow> (Inl e, h)
        | Inr amt \<Rightarrow>
           (if num_gt amt (balance (h f))
            then (Inl (Error ''Insufficient funds for transfer.''), h)
            else
             (let h1 = h(f := ensureTransactions (h f));
                  h2 = h1(t := ensureTransactions (h1 t));
                  h3 = h2(f := (h2 f)\<lparr>balance := num_sub (balance (h2 f)) amt\<rparr>);
                  h4 = h3(f := push \<lparr>type = ''TRANSFER_OUT'', amount = amt, date = now1,
                                     newBalance = balance (h3 f), penalty = None,
                                     to = accountNumber (h3 t), from' = None\<rparr> (h3 f));
                  h5 = h4(t := (h4 t)\<lparr>balance := num_add (balance (h4 t)) amt\<rparr>);
                  h6 = h5(t := push \<lparr>type = ''TRANSFER_IN'', amount = amt, date = now2,
                                     newBalance = balance (h5 t), penalty = None,
                                     to = None, from' = accountNumber (h5 f)\<rparr> (h5 t))
              in (Inr (summary_of (h6 f), summary_of (h6 t)), h6)))))"
| "transferMoney now1 now2 h _ _ v = (Inl (Error ''Account must be available!''), h)"

section \<open>services/interestService.js\<close>

text \<open>
  \<open>calculateSaving\<close> of the modular service. It also returns what it writes with
  \<open>console.log\<close>. \<open>rate\<close> is the literal \<open>0.00167\<close>.
\<close>

definition rate :: number where
  "rate = literal (167 / 100000)"

definition calculateSaving :: "string \<Rightarrow> account \<Rightarrow> (summary \<times> notice list) \<times> account" where
  "calculateSaving now account =
     (let a1 = ensureTransactions account
      in if num_le (balance a1) (Finite 500)
         then ((summary_of a1, [LowBalanceLog (balance a1)]), a1)
         else (let interestAmount = num_mul (balance a1) rate;
                   newTrans = \<lparr>type = ''INTEREST'', amount = interestAmount, date = now,
                               newBalance = num_add (balance a1) interestAmount, penalty = None,
                               to = None, from' = None\<rparr>;
                   a2 = push newTrans a1
               in (((summary_of a2)\<lparr>sum_balance := num_add (balance a2) interestAmount\<rparr>, []),
                   a2)))"

text \<open>
  \<open>calculateSaving\<close> of the browser bundle (\<open>BankingSystem.calculateSaving\<close>), the second
  copy of the function in the repository.
\<close>

definition calculateSaving_browser :: "string \<Rightarrow> account \<Rightarrow> summary \<times> account" where
  "calculateSaving_browser now account =
     (let a1 = ensureTransactions account
      in if num_le (balance a1) (Finite 500)
         then ((summary_of a1)\<lparr>message := Some (BelowThreshold (balance a1))\<rparr>, a1)
         else (let interest = num_mul (balance a1) rate;
                   a2 = push \<lparr>type = ''INTEREST'', amount = interest, date = now,
                              newBalance = num_add (balance a1) interest, penalty = None,
                              to = None, from' = None\<rparr> a1;
                   a3 = a2\<lparr>balance := num_add (balance a2) interest\<rparr>
               in ((summary_of a3)\<lparr>interestApplied := Some interest\<rparr>, a3)))"

section \<open>Dates\<close>

text \<open>
  Time values are milliseconds since the epoch; \<open>NaN\<close> is \<open>None\<close>. \<open>Date.UTC\<close> is defined
  by ECMA-262 (\<open>MakeDay\<close>, \<open>MakeTime\<close>, \<open>MakeDate\<close>, \<open>TimeClip\<close>, and the rule that a year
  from 0 to 99 means 1900 + year) and is modelled as defined there. What
  \<open>new Date(s).getTime()\<close> returns for a string depends on the engine for every format
  but the ISO one, so it is an argument \<open>parse\<close> of the functions that call it.
\<close>

definition msPerDay :: int where
  "msPerDay = 86400000"

definition InLeapYear :: "int \<Rightarrow> bool" where
  "InLeapYear y = (y mod 4 = 0 \<and> (y mod 100 \<noteq> 0 \<or> y mod 400 = 0))"

definition DayFromYear :: "int \<Rightarrow> int" where
  "DayFromYear y =
     365 * (y - 1970) + (y - 1969) div 4 - (y - 1901) div 100 + (y - 1601) div 400"

text \<open>The number of days of the year before month \<open>mn\<close> (0 to 11).\<close>

definition daysBeforeMonth :: "int \<Rightarrow> bool \<Rightarrow> int" where
  "daysBeforeMonth mn leap =
     (let l = (if leap then 1 else 0)
      in if mn = 0 then 0 else if mn = 1 then 31 else if mn = 2 then 59 + l
         else if mn = 3 then 90 + l else if mn = 4 then 120 + l
         else if mn = 5 then 151 + l else if mn = 6 then 181 + l
         else if mn = 7 then 212 + l else if mn = 8 then 243 + l
         else if mn = 9 then 273 + l else if mn = 10 then 304 + l else 334 + l)"

definition MakeDay :: "int \<Rightarrow> int \<Rightarrow> int \<Rightarrow> int" where
  "MakeDay year month dt =
     (let ym = year + month div 12; mn = month mod 12
      in DayFromYear ym + daysBeforeMonth mn (InLeapYear ym) + dt - 1)"

definition MakeTime :: "int \<Rightarrow> int \<Rightarrow> int \<Rightarrow> int \<Rightarrow> int" where
  "MakeTime hour minute sec ms = hour * 3600000 + minute * 60000 + sec * 1000 + ms"

definition MakeDate :: "int \<Rightarrow> int \<Rightarrow> int" where
  "MakeDate day time = day * msPerDay + time"

definition TimeClip :: "int \<Rightarrow> int option" where
  "TimeClip t = (if \<bar>t\<bar> > 8640000000000000 then None else Some t)"

definition Date_UTC :: "int \<Rightarrow> int \<Rightarrow> int \<Rightarrow> int \<Rightarrow> int \<Rightarrow> int \<Rightarrow> int \<Rightarrow> int option" where
  "Date_UTC year month dt hours minutes seconds ms =
     (let yr = (if 0 \<le> year \<and> year \<le> 99 then 1900 + year else year)
      in TimeClip (MakeDate (MakeDay yr month dt) (MakeTime hours minutes seconds ms)))"

text \<open>\<open>Number(text)\<close> on a string of decimal digits.\<close>

definition isDigit :: "char \<Rightarrow> bool" where
  "isDigit c = (c \<in> set ''0123456789'')"

definition digitValue :: "char \<Rightarrow> int" where
  "digitValue c =
     (case map_of (zip ''0123456789'' [0, 1, 2, 3, 4, 5, 6, 7, 8, 9]) c of
        None \<Rightarrow> 0 | Some d \<Rightarrow> d)"

definition Number_digits :: "string \<Rightarrow> int" where
  "Number_digits s = foldl (\<lambda>n c. 10 * n + digitValue c) 0 s"

text \<open>The difference of two time values, \<open>NaN\<close> when either is.\<close>

definition minus_ms :: "int option \<Rightarrow> int option \<Rightarrow> int option" where
  "minus_ms a b =
     (case a of None \<Rightarrow> None | Some x \<Rightarrow> (case b of None \<Rightarrow> None | Some y \<Rightarrow> Some (x - y)))"

section \<open>Array.prototype.sort\<close>

text \<open>
  \<open>sort\<close> is stable, and a comparator result \<open>NaN\<close> counts as \<open>0\<close>. It is modelled as a
  stable insertion sort. When the comparator is consistent (here: when no time value is
  \<open>NaN\<close>), every conforming \<open>sort\<close> returns this array. With a \<open>NaN\<close> among the time
  values the comparator is not consistent and ECMA-262 leaves the order to the
  implementation; the model then gives one of the permitted orders, not necessarily the
  one of a particular engine.
\<close>

definition sortCompare :: "('a \<Rightarrow> 'a \<Rightarrow> int option) \<Rightarrow> 'a \<Rightarrow> 'a \<Rightarrow> int" where
  "sortCompare cmp x y = (case cmp x y of None \<Rightarrow> 0 | Some v \<Rightarrow> v)"

fun js_insort :: "('a \<Rightarrow> 'a \<Rightarrow> int option) \<Rightarrow> 'a \<Rightarrow> 'a list \<Rightarrow> 'a list" where
  "js_insort cmp x [] = [x]"
| "js_insort cmp x (y # ys) =
     (if sortCompare cmp x y \<le> 0 then x # y # ys else y # js_insort cmp x ys)"

definition js_sort :: "('a \<Rightarrow> 'a \<Rightarrow> int option) \<Rightarrow> 'a list \<Rightarrow> 'a list" where
  "js_sort cmp xs = foldr (js_insort cmp) xs []"


section \<open>retrieveTransactionsInRange\<close>

record options =
  startDate :: "string option"
  endDate :: "string option"
  opt_type :: "string option"

text \<open>The test \<open>/^\d{4}-\d{2}-\d{2}$/\<close>.\<close>

definition isDateOnly :: "string \<Rightarrow> bool" where
  "isDateOnly s =
     (case s of
        [y1, y2, y3, y4, s1, m1, m2, s2, d1, d2] \<Rightarrow>
          isDigit y1 \<and> isDigit y2 \<and> isDigit y3 \<and> isDigit y4 \<and> s1 = CHR ''-'' \<and>
          isDigit m1 \<and> isDigit m2 \<and> s2 = CHR ''-'' \<and> isDigit d1 \<and> isDigit d2
      | _ \<Rightarrow> False)"

definition parseBoundaryMs ::
  "(string \<Rightarrow> int option) \<Rightarrow> string option \<Rightarrow> bool \<Rightarrow> error + int option" where
  "parseBoundaryMs parse v isEndOfDay =
     (case v of
        None \<Rightarrow> Inr None
      | Some s \<Rightarrow>
         (if s = [] then Inr None
          else if isDateOnly s
          then (let year = Number_digits (take 4 s);
                    monthIndex = Number_digits (take 2 (drop 5 s)) - 1;
                    day = Number_digits (drop 8 s)
                in case Date_UTC year monthIndex day
                          (if isEndOfDay then 23 else 0) (if isEndOfDay then 59 else 0)
                          (if isEndOfDay then 59 else 0) (if isEndOfDay then 999 else 0) of
                     None \<Rightarrow> Inl (Error (''Invalid date: '' @ s))
                   | Some ms \<Rightarrow> Inr (Some ms))
          else (case parse s of
                  None \<Rightarrow> Inl (Error (''Invalid date: '' @ s))
                | Some ms \<Rightarrow> Inr (Some ms))))"

text \<open>The filter callback, and the comparator \<open>(a, b) => time(b) - time(a)\<close>.\<close>

definition keeps ::
  "(string \<Rightarrow> string) \<Rightarrow> (string \<Rightarrow> int option) \<Rightarrow> string option \<Rightarrow> int option \<Rightarrow> int option
     \<Rightarrow> transaction \<Rightarrow> bool" where
  "keeps toUpperCase parse normalizedType startMs endMs t =
     (if truthy normalizedType \<and> Some (toUpperCase (type t)) \<noteq> normalizedType then False
      else (case parse (date t) of
              None \<Rightarrow> False
            | Some time \<Rightarrow>
               (if (case startMs of None \<Rightarrow> False | Some s \<Rightarrow> time < s) then False
                else if (case endMs of None \<Rightarrow> False | Some e \<Rightarrow> time > e) then False
                else True)))"

definition newestFirst :: "(string \<Rightarrow> int option) \<Rightarrow> transaction \<Rightarrow> transaction \<Rightarrow> int option" where
  "newestFirst parse a b = minus_ms (parse (date b)) (parse (date a))"

definition retrieveTransactionsInRange ::
  "(string \<Rightarrow> string) \<Rightarrow> (string \<Rightarrow> int option) \<Rightarrow> account option \<Rightarrow> options
     \<Rightarrow> (error + transaction list) \<times> account option" where
  "retrieveTransactionsInRange toUpperCase parse account opts =
     (case account of
        None \<Rightarrow> (Inl (Error ''Account is required.''), None)
      | Some a \<Rightarrow>
         (let a1 = ensureTransactions a
          in case parseBoundaryMs parse (startDate opts) False of
               Inl e \<Rightarrow> (Inl e, Some a1)
             | Inr startMs \<Rightarrow>
                (case parseBoundaryMs parse (endDate opts) True of
                   Inl e \<Rightarrow> (Inl e, Some a1)
                 | Inr endMs \<Rightarrow>
                    (if (case (startMs, endMs) of (Some s, Some e) \<Rightarrow> s > e | _ \<Rightarrow> False)
                     then (Inl (Error ''startDate must be on/before endDate.''), Some a1)
                     else
                      (case (case opt_type opts of
                               None \<Rightarrow> Inr None
                             | Some ty \<Rightarrow>
                                 (case requireNonEmptyString (Some ty) ''Type'' of
                                    Inl e \<Rightarrow> Inl e
                                  | Inr tr \<Rightarrow> Inr (Some (toUpperCase tr)))) of
                         Inl e \<Rightarrow> (Inl e, Some a1)
                       | Inr normalizedType \<Rightarrow>
                          (Inr (js_sort (newestFirst parse)
                                  (filter (keeps toUpperCase parse normalizedType startMs endMs)
                                     (txns a1))),
                           Some a1))))))"

section \<open>services/securityService.js\<close>

text \<open>
  The status of an account and its history as a reader sees them: \<open>ACTIVE\<close> while the
  property is absent or empty, no entries while the array is absent.
\<close>

definition status_of :: "account \<Rightarrow> string" where
  "status_of a = (case status a of None \<Rightarrow> ''ACTIVE'' | Some s \<Rightarrow> if s = [] then ''ACTIVE'' else s)"

definition history :: "account \<Rightarrow> statusChange list" where
  "history a = (case statusHistory a of None \<Rightarrow> [] | Some hs \<Rightarrow> hs)"

text \<open>\<open>if (!account.status) account.status = "ACTIVE"\<close> and the same for the history.\<close>

definition ensureStatus :: "account \<Rightarrow> account" where
  "ensureStatus a = (if \<not> truthy (status a) then a\<lparr>status := Some ''ACTIVE''\<rparr> else a)"

definition ensureStatusHistory :: "account \<Rightarrow> account" where
  "ensureStatusHistory a =
     (case statusHistory a of None \<Rightarrow> a\<lparr>statusHistory := Some []\<rparr> | Some hs \<Rightarrow> a)"

record statusSummary =
  ss_accountNumber :: "string option"
  ss_status :: string
  ss_statusHistory :: "statusChange list"

definition updateAccountStatus ::
  "(string \<Rightarrow> string) \<Rightarrow> string \<Rightarrow> account option \<Rightarrow> string option \<Rightarrow> string option
     \<Rightarrow> (error + statusSummary) \<times> account option" where
  "updateAccountStatus toUpperCase now account action managerId =
     (case account of
        None \<Rightarrow> (Inl (Error ''Account is required.''), None)
      | Some a \<Rightarrow>
         (let a1 = ensureStatusHistory (ensureStatus a)
          in case requireNonEmptyString action ''Action'' of
               Inl e \<Rightarrow> (Inl e, Some a1)
             | Inr trimmed \<Rightarrow>
                (let normalizedAction = toUpperCase trimmed;
                     hasManagerApproval =
                       (case managerId of None \<Rightarrow> False | Some m \<Rightarrow> length (trim m) > 0)
                 in if normalizedAction = ''FREEZE'' \<and> \<not> hasManagerApproval
                    then (Inl (Error ''Manager approval is required to freeze an account.''),
                          Some a1)
                    else if normalizedAction \<noteq> ''FREEZE'' \<and> normalizedAction \<noteq> ''UNFREEZE''
                    then (Inl (Error (''Action must be '' @ [CHR 0x22] @ ''FREEZE'' @ [CHR 0x22] @ '' or '' @
                                 [CHR 0x22] @ ''UNFREEZE'' @ [CHR 0x22] @ ''.'')), Some a1)
                    else
                     (let nextStatus = (if normalizedAction = ''FREEZE'' then ''FROZEN''
                                        else ''ACTIVE'');
                          a2 = (if status_of a1 \<noteq> nextStatus
                                then a1\<lparr>status := Some nextStatus,
                                        statusHistory := Some (history a1 @
                                          [\<lparr>sc_action = normalizedAction,
                                            sc_by = (case managerId of
                                                       None \<Rightarrow> ''system''
                                                     | Some m \<Rightarrow>
                                                         if hasManagerApproval then trim m
                                                         else ''system''),
                                            sc_date = now\<rparr>])\<rparr>
                                else a1)
                      in (Inr \<lparr>ss_accountNumber = accountNumber a2, ss_status = status_of a2,
                               ss_statusHistory = history a2\<rparr>, Some a2)))))"

definition assertAccountNotFrozen :: "account \<Rightarrow> error option \<times> account" where
  "assertAccountNotFrozen account =
     (let a1 = ensureStatus account
      in if status_of a1 = ''FROZEN''
         then (Some (Error ''Account is frozen. Transactions are not allowed.''), a1)
         else (None, a1))"

text \<open>
  \<open>withdrawalWithDailyLimit\<close> reads the clock for \<open>todayKey\<close> (\<open>today\<close>, an ISO string whose
  first ten characters are the UTC calendar day) and \<open>withdrawal\<close> reads it again (\<open>now\<close>).
  The \<open>reduce\<close> adds the amounts one by one, from \<open>0\<close>, in the order of the array.
\<close>

definition withdrawnToday :: "string \<Rightarrow> account \<Rightarrow> number" where
  "withdrawnToday todayKey a =
     foldl (\<lambda>sum t. num_add sum (amount t)) (Finite 0)
       (filter (\<lambda>t. type t = ''WITHDRAWAL'' \<and> take 10 (date t) = todayKey) (txns a))"

definition withdrawalWithDailyLimit ::
  "string \<Rightarrow> string \<Rightarrow> account \<Rightarrow> jsval \<Rightarrow> (error + summary) \<times> account" where
  "withdrawalWithDailyLimit today now account v =
     (case assertAccountNotFrozen account of
        (Some e, a1) \<Rightarrow> (Inl e, a1)
      | (None, a1) \<Rightarrow>
         (case requirePositiveNumber v ''Withdrawal amount'' of
            Inl e \<Rightarrow> (Inl e, a1)
          | Inr amt \<Rightarrow>
             (let a2 = ensureTransactions a1;
                  todayKey = take 10 today
              in if num_gt (num_add (withdrawnToday todayKey a2) amt) (Finite 500)
                 then (Inl (Error ''Daily withdrawal limit exceeded ($500 max)''), a2)
                 else withdrawal now a2 v)))"

text \<open>
  \<open>checkForSuspiciousActivity\<close>. An alert is kept as the values its message is built
  from: the amount and kind of a high-value transaction, the count and minutes of a
  rapid sequence.
\<close>

datatype alert = HighValue number string | RapidWithdrawals nat int

record suspicion =
  isSuspicious :: bool
  alerts :: "alert list"

definition windowMs :: int where
  "windowMs = 5 * 60 * 1000"

definition kindOf :: "transaction \<Rightarrow> string" where
  "kindOf t =
     (if type t = ''TRANSFER_OUT'' \<or> type t = ''TRANSFER_IN'' then ''transfer''
      else if type t = ''WITHDRAWAL'' then ''withdrawal''
      else if type t = ''DEPOSIT'' then ''deposit'' else ''transaction'')"

definition highValueAlerts :: "transaction list \<Rightarrow> alert list" where
  "highValueAlerts ts =
     map (\<lambda>t. HighValue (amount t) (kindOf t))
       (filter (\<lambda>t. num_gt (amount t) (Finite 10000)) ts)"

text \<open>\<open>Math.round(span / 60000)\<close>: the nearest integer, a half rounded up.\<close>

definition roundMinutes :: "int \<Rightarrow> int" where
  "roundMinutes spanMs = (2 * spanMs + 60000) div 120000"

definition smallWithdrawals ::
  "(string \<Rightarrow> int option) \<Rightarrow> transaction list \<Rightarrow> (transaction \<times> int option) list" where
  "smallWithdrawals parse ts =
     js_sort (\<lambda>a b. minus_ms (snd a) (snd b))
       (map (\<lambda>t. (t, parse (date t)))
          (filter (\<lambda>t. type t = ''WITHDRAWAL'' \<and> num_le (amount t) (Finite 500)) ts))"

text \<open>
  The inner loop over \<open>j\<close> and the outer loop over \<open>i\<close>; the result is the alert pushed
  when \<open>flaggedRapid\<close> is set. A comparison with a \<open>NaN\<close> span is false.
\<close>

function rapidInner :: "(transaction \<times> int option) list \<Rightarrow> nat \<Rightarrow> nat \<Rightarrow> alert option" where
  "rapidInner small i j =
     (if j < length small
      then (case minus_ms (snd (small ! j)) (snd (small ! i)) of
              Some spanMs \<Rightarrow>
                (if spanMs \<le> windowMs
                 then Some (RapidWithdrawals (j - i + 1) (max 1 (roundMinutes spanMs)))
                 else if spanMs > windowMs then None
                 else rapidInner small i (j + 1))
            | None \<Rightarrow> rapidInner small i (j + 1))
      else None)"
  by pat_completeness auto
termination
  by (relation "measure (\<lambda>(small, i, j). length small - j)") auto

function rapidOuter :: "(transaction \<times> int option) list \<Rightarrow> nat \<Rightarrow> alert option" where
  "rapidOuter small i =
     (if i < length small
      then (case rapidInner small i (i + 2) of
              Some a \<Rightarrow> Some a
            | None \<Rightarrow> rapidOuter small (i + 1))
      else None)"
  by pat_completeness auto
termination
  by (relation "measure (\<lambda>(small, i). length small - i)") auto

definition checkForSuspiciousActivity ::
  "(string \<Rightarrow> int option) \<Rightarrow> account \<Rightarrow> suspicion \<times> account" where
  "checkForSuspiciousActivity parse account =
     (let a1 = ensureTransactions account;
          high = highValueAlerts (txns a1);
          small = smallWithdrawals parse (txns a1);
          found = (case rapidOuter small 0 of None \<Rightarrow> high | Some a \<Rightarrow> high @ [a])
      in (\<lparr>isSuspicious = length found > 0, alerts = found\<rparr>, a1))"

text \<open>\<open>addDepositSafe\<close>: the guard, then the deposit.\<close>

definition addDepositSafe :: "string \<Rightarrow> account \<Rightarrow> jsval \<Rightarrow> (error + account) \<times> account" where
  "addDepositSafe now account v =
     (case assertAccountNotFrozen account of
        (Some e, a1) \<Rightarrow> (Inl e, a1)
      | (None, a1) \<Rightarrow> addDeposit now a1 v)"

section \<open>The terms of the claims\<close>

text \<open>
  The definitions of this section are not code of the repository. They put the words of
  the specification into HOL, so that the functions above can be compared with them, and
  name the records the functions write.
\<close>

subsection \<open>The records of the ledger\<close>

definition depositRecord :: "string \<Rightarrow> number \<Rightarrow> number \<Rightarrow> transaction" where
  "depositRecord now amt nb =
     \<lparr>type = ''DEPOSIT'', amount = amt, date = now, newBalance = nb,
      penalty = None, to = None, from' = None\<rparr>"

definition withdrawalRecord :: "string \<Rightarrow> number \<Rightarrow> number \<Rightarrow> transaction" where
  "withdrawalRecord now amt nb =
     \<lparr>type = ''WITHDRAWAL'', amount = amt, date = now, newBalance = nb,
      penalty = None, to = None, from' = None\<rparr>"

definition overdraftRecord :: "string \<Rightarrow> number \<Rightarrow> number \<Rightarrow> transaction" where
  "overdraftRecord now amt nb =
     \<lparr>type = ''OVERDRAFT_ATTEMPT'', amount = amt, date = now, newBalance = nb,
      penalty = Some (Finite 5), to = None, from' = None\<rparr>"

definition transferOutRecord :: "string \<Rightarrow> number \<Rightarrow> number \<Rightarrow> string option \<Rightarrow> transaction" where
  "transferOutRecord now amt nb dest =
     \<lparr>type = ''TRANSFER_OUT'', amount = amt, date = now, newBalance = nb,
      penalty = None, to = dest, from' = None\<rparr>"

definition transferInRecord :: "string \<Rightarrow> number \<Rightarrow> number \<Rightarrow> string option \<Rightarrow> transaction" where
  "transferInRecord now amt nb src =
     \<lparr>type = ''TRANSFER_IN'', amount = amt, date = now, newBalance = nb,
      penalty = None, to = None, from' = src\<rparr>"

definition interestRecord :: "string \<Rightarrow> number \<Rightarrow> number \<Rightarrow> transaction" where
  "interestRecord now amt nb =
     \<lparr>type = ''INTEREST'', amount = amt, date = now, newBalance = nb,
      penalty = None, to = None, from' = None\<rparr>"

text \<open>
  The signed effect of a record on the balance, as the table of the data model has it;
  the balance that the records give when their effects are added in order to an initial
  deposit, each sum a double as in the engine; and whether each record's \<open>newBalance\<close> is
  the balance right after that record.
\<close>

definition effect :: "transaction \<Rightarrow> number" where
  "effect t =
     (if type t = ''DEPOSIT'' then amount t
      else if type t = ''WITHDRAWAL'' then num_neg (amount t)
      else if type t = ''OVERDRAFT_ATTEMPT''
      then (case penalty t of None \<Rightarrow> Finite 0 | Some p \<Rightarrow> num_neg p)
      else if type t = ''TRANSFER_OUT'' then num_neg (amount t)
      else if type t = ''TRANSFER_IN'' then amount t
      else if type t = ''INTEREST'' then amount t
      else Finite 0)"

fun replay :: "number \<Rightarrow> transaction list \<Rightarrow> number" where
  "replay b [] = b"
| "replay b (t # ts) = replay (num_add b (effect t)) ts"

fun recordsAgree :: "number \<Rightarrow> transaction list \<Rightarrow> bool" where
  "recordsAgree b [] = True"
| "recordsAgree b (t # ts) =
     (newBalance t = num_add b (effect t) \<and> recordsAgree (num_add b (effect t)) ts)"

definition ledgerInvariant :: "number \<Rightarrow> account \<Rightarrow> bool" where
  "ledgerInvariant init a = (balance a = replay init (txns a) \<and> recordsAgree init (txns a))"

text \<open>
  Engine operations on a store of accounts, with the interest accrual of the browser
  bundle. A rejected operation leaves what its exception leaves.
\<close>

datatype operation =
    Deposit ref string jsval
  | Withdraw ref string jsval
  | Transfer "ref option" "ref option" string string jsval
  | Accrue ref string

fun perform_browser :: "heap \<Rightarrow> operation \<Rightarrow> heap" where
  "perform_browser h (Deposit r now v) = h(r := snd (addDeposit now (h r) v))"
| "perform_browser h (Withdraw r now v) = h(r := snd (withdrawal now (h r) v))"
| "perform_browser h (Transfer src dst now1 now2 v) = snd (transferMoney now1 now2 h src dst v)"
| "perform_browser h (Accrue r now) = h(r := snd (calculateSaving_browser now (h r)))"

text \<open>Withdrawing the same amount once per clock reading of the list.\<close>

fun withdrawals :: "string list \<Rightarrow> account \<Rightarrow> jsval \<Rightarrow> account" where
  "withdrawals [] a v = a"
| "withdrawals (now # nows) a v = withdrawals nows (snd (withdrawal now a v)) v"


definition whole :: "int \<Rightarrow> number" where
  "whole n = Finite (of_int n)"

subsection \<open>Transfers\<close>

text \<open>
  An account argument has an identifier; an amount is a positive number (\<open>Infinity\<close>
  included, \<open>NaN\<close> not); an amount exceeds the balance of the account it is to come from.
\<close>

definition hasIdentifier :: "heap \<Rightarrow> ref option \<Rightarrow> bool" where
  "hasIdentifier h r = (case r of None \<Rightarrow> False | Some p \<Rightarrow> truthy (accountNumber (h p)))"

definition positiveNumber :: "jsval \<Rightarrow> bool" where
  "positiveNumber v = (case v of JNum x \<Rightarrow> num_gt x (Finite 0) | JOther \<Rightarrow> False)"

definition exceedsBalance :: "heap \<Rightarrow> ref option \<Rightarrow> jsval \<Rightarrow> bool" where
  "exceedsBalance h r v =
     (case (r, v) of (Some p, JNum x) \<Rightarrow> num_gt x (balance (h p)) | _ \<Rightarrow> False)"

subsection \<open>Status changes and the daily limit\<close>

text \<open>
  An action normalises to a keyword when it is a string that is not blank and that,
  trimmed and upper-cased, is the keyword. A manager identifier is supplied when it is a
  string that is not blank.
\<close>

definition normalizesTo :: "(string \<Rightarrow> string) \<Rightarrow> string option \<Rightarrow> string \<Rightarrow> bool" where
  "normalizesTo toUpperCase action target =
     (case action of None \<Rightarrow> False | Some s \<Rightarrow> trim s \<noteq> [] \<and> toUpperCase (trim s) = target)"

definition managerSupplied :: "string option \<Rightarrow> bool" where
  "managerSupplied m = (case m of None \<Rightarrow> False | Some s \<Rightarrow> trim s \<noteq> [])"

definition freezeEntry :: "string \<Rightarrow> string \<Rightarrow> statusChange" where
  "freezeEntry manager now = \<lparr>sc_action = ''FREEZE'', sc_by = manager, sc_date = now\<rparr>"






subsection \<open>Suspicious activity\<close>

text \<open>The date of every withdrawal of at most 500 parses.\<close>

definition smallDatesParse :: "(string \<Rightarrow> int option) \<Rightarrow> account \<Rightarrow> bool" where
  "smallDatesParse parse a =
     list_all (\<lambda>t. type t = ''WITHDRAWAL'' \<and> num_le (amount t) (Finite 500) \<longrightarrow>
                   parse (date t) \<noteq> None)
       (txns a)"

subsection \<open>Retrieval\<close>

text \<open>
  The year, month and day written in a string \<open>YYYY-MM-DD\<close>, the days of the Gregorian
  calendar, and the time values of 00:00:00.000 UTC and of 23:59:59.999 UTC on a day:
  the day's number since the epoch, times the milliseconds of a day.
\<close>

definition yearOf :: "string \<Rightarrow> int" where
  "yearOf s = Number_digits (take 4 s)"

definition monthOf :: "string \<Rightarrow> int" where
  "monthOf s = Number_digits (take 2 (drop 5 s))"

definition dayOf :: "string \<Rightarrow> int" where
  "dayOf s = Number_digits (drop 8 s)"

definition daysInMonth :: "int \<Rightarrow> int \<Rightarrow> int" where
  "daysInMonth y m =
     (if m = 2 then (if InLeapYear y then 29 else 28)
      else if m = 4 \<or> m = 6 \<or> m = 9 \<or> m = 11 then 30 else 31)"

definition realDate :: "int \<Rightarrow> int \<Rightarrow> int \<Rightarrow> bool" where
  "realDate y m d = (1 \<le> m \<and> m \<le> 12 \<and> 1 \<le> d \<and> d \<le> daysInMonth y m)"

definition utcMidnight :: "int \<Rightarrow> int \<Rightarrow> int \<Rightarrow> int" where
  "utcMidnight y m d =
     (DayFromYear y + daysBeforeMonth (m - 1) (InLeapYear y) + d - 1) * msPerDay"

definition utcDayEnd :: "int \<Rightarrow> int \<Rightarrow> int \<Rightarrow> int" where
  "utcDayEnd y m d = utcMidnight y m d + (msPerDay - 1)"

text \<open>
  What the specification makes of a bound: none when it is absent or empty; for a bare
  \<open>YYYY-MM-DD\<close>, the start or the end of that day; for any other string, its time value.
  \<open>Unresolved\<close> is a string with no time value.
\<close>

datatype boundary = NoBound | At int | Unresolved

definition boundOf :: "(string \<Rightarrow> int option) \<Rightarrow> bool \<Rightarrow> string option \<Rightarrow> boundary" where
  "boundOf parse isEnd v =
     (case v of
        None \<Rightarrow> NoBound
      | Some s \<Rightarrow>
          if s = [] then NoBound
          else if isDateOnly s
          then At (if isEnd then utcDayEnd (yearOf s) (monthOf s) (dayOf s)
                   else utcMidnight (yearOf s) (monthOf s) (dayOf s))
          else (case parse s of None \<Rightarrow> Unresolved | Some ms \<Rightarrow> At ms))"

text \<open>
  The time of a transaction whose date parses; a sequence ordered by time with the most
  recent first; the filter of the specification; the type filter that the options give;
  and the options in which every bare \<open>YYYY-MM-DD\<close> bound names a day of the calendar in a
  year from 0100 on.
\<close>

definition timeOf :: "(string \<Rightarrow> int option) \<Rightarrow> transaction \<Rightarrow> int" where
  "timeOf parse t = (case parse (date t) of None \<Rightarrow> 0 | Some v \<Rightarrow> v)"

definition newestFirstOrder :: "(string \<Rightarrow> int option) \<Rightarrow> transaction list \<Rightarrow> bool" where
  "newestFirstOrder parse ts = sorted_wrt (\<lambda>x y. timeOf parse y \<le> timeOf parse x) ts"

definition wanted ::
  "(string \<Rightarrow> string) \<Rightarrow> (string \<Rightarrow> int option) \<Rightarrow> string option \<Rightarrow> boundary \<Rightarrow> boundary
     \<Rightarrow> transaction \<Rightarrow> bool" where
  "wanted toUpperCase parse ty lo hi t =
     ((case ty of None \<Rightarrow> True | Some u \<Rightarrow> toUpperCase (type t) = u) \<and>
      (case parse (date t) of
         None \<Rightarrow> False
       | Some time \<Rightarrow>
           (case lo of At s \<Rightarrow> s \<le> time | _ \<Rightarrow> True) \<and>
           (case hi of At e \<Rightarrow> time \<le> e | _ \<Rightarrow> True)))"

definition typeFilter :: "(string \<Rightarrow> string) \<Rightarrow> options \<Rightarrow> string option" where
  "typeFilter toUpperCase opts =
     (case opt_type opts of None \<Rightarrow> None | Some ty \<Rightarrow> Some (toUpperCase (trim ty)))"

definition calendarDay :: "string option \<Rightarrow> bool" where
  "calendarDay v =
     (case v of
        None \<Rightarrow> True
      | Some s \<Rightarrow> isDateOnly s \<longrightarrow>
          100 \<le> yearOf s \<and> realDate (yearOf s) (monthOf s) (dayOf s))"

section \<open>Sample accounts and clock readings\<close>

text \<open>
  \<open>opened n b\<close> is the account that the registry creates for John Doe with the drawn
  number \<open>n\<close> and the initial deposit \<open>b\<close>; \<open>alice\<close> is the one created for Alice Johnson
  with 1000.
\<close>

definition opened :: "string \<Rightarrow> number \<Rightarrow> account" where
  "opened n b =
     \<lparr>accountNumber = Some n, firstName = ''John'', lastName = ''Doe'', balance = b,
      createdAt = ''2026-01-01T00:00:00.000Z'', transactions = None, status = None,
      statusHistory = None\<rparr>"

definition johnDoe :: account where
  "johnDoe = opened ''1000000001'' (Finite 100)"

definition t10 :: string where
  "t10 = ''2026-01-02T10:00:00.000Z''"

definition t11 :: string where
  "t11 = ''2026-01-02T11:00:00.000Z''"

definition t12 :: string where
  "t12 = ''2026-01-02T12:00:00.000Z''"


definition alice :: account where
  "alice =
     \<lparr>accountNumber = Some ''1000000003'', firstName = ''Alice'', lastName = ''Johnson'',
      balance = Finite 1000, createdAt = t10, transactions = None, status = None,
      statusHistory = None\<rparr>"

text \<open>
  A store of two accounts with balances 300 and 100; one with balances 50 and
  \<open>10^17\<close>; and one whose accounts hold \<open>161.33\<close>.
\<close>

definition refA :: ref where
  "refA = 0"

definition refB :: ref where
  "refB = 1"

definition bank :: heap where
  "bank = (\<lambda>r. if r = refA then opened ''1000000004'' (Finite 300)
                else opened ''1000000005'' (Finite 100))"

definition unevenBank :: heap where
  "unevenBank = (\<lambda>r. if r = refA then opened ''1000000011'' (Finite 50)
                      else opened ''1000000012'' (Finite (10 ^ 17)))"

definition centsBank :: heap where
  "centsBank = (\<lambda>r. opened ''1000000013'' (literal (16133 / 100)))"


definition sunk :: account where
  "sunk = opened ''1000000015'' (Finite (- (2 ^ 56)))"

text \<open>
  An account after two withdrawals of 200 through the daily limit on 2026-01-02, one
  after a single withdrawal of 500 on that day, and John Doe's account after a freeze by
  \<open>MGR-001\<close>.
\<close>

definition twiceWithdrawn :: account where
  "twiceWithdrawn =
     snd (withdrawalWithDailyLimit t11 t11
       (snd (withdrawalWithDailyLimit t10 t10 (opened ''1000000007'' (Finite 1000))
          (JNum (Finite 200))))
       (JNum (Finite 200)))"


definition frozenJohn :: account where
  "frozenJohn = johnDoe\<lparr>status := Some ''FROZEN'',
     statusHistory := Some [freezeEntry ''MGR-001'' t10]\<rparr>"

text \<open>A no-break space, U+00A0.\<close>

definition nbsp :: string where
  "nbsp = [CHR 0xC2, CHR 0xA0]"

text \<open>
  What \<open>new Date(s).getTime()\<close> returns for the date strings of the samples; any other
  string here, such as \<open>not a date\<close>, gives \<open>NaN\<close>.
\<close>

definition m0 :: string where "m0 = ''2026-01-02T10:00:00.000Z''"

definition m1 :: string where "m1 = ''2026-01-02T10:01:00.000Z''"

definition m2 :: string where "m2 = ''2026-01-02T10:02:00.000Z''"

definition m4 :: string where "m4 = ''2026-01-02T10:04:00.000Z''"

definition clock :: "string \<Rightarrow> int option" where
  "clock s =
     map_of [(''2026-01-02T10:00:00.000Z'', 1767348000000),
             (''2026-01-02T10:01:00.000Z'', 1767348060000),
             (''2026-01-02T10:02:00.000Z'', 1767348120000),
             (''2026-01-02T10:04:00.000Z'', 1767348240000),
             (''2023-11-15'', 1700006400000),
             (''2023-11-20'', 1700438400000),
             (''1900-01-01T00:00:00.000Z'', - 2208988800000)] s"

text \<open>
  Accounts with withdrawals of 100 at the given dates: three within four minutes, four
  within four minutes, and four of which the third has no parsable date.
\<close>

definition withdrew :: "string list \<Rightarrow> account" where
  "withdrew stamps =
     (opened ''1000000008'' (Finite 1000))\<lparr>transactions :=
        Some (map (\<lambda>d. withdrawalRecord d (Finite 100) (Finite 900)) stamps)\<rparr>"

definition threeQuick :: account where
  "threeQuick = withdrew [m0, m2, m4]"

definition fourQuick :: account where
  "fourQuick = withdrew [m0, m1, m2, m4]"

definition garbled :: account where
  "garbled = withdrew [m0, m1, ''not a date'', m4]"

text \<open>
  An account with a deposit dated 2023-11-15 and a withdrawal dated 2023-11-20, one with a
  deposit dated 1900-01-01, and three option objects.
\<close>

definition novemberLedger :: account where
  "novemberLedger =
     (opened ''1000000009'' (Finite 250))\<lparr>transactions :=
        Some [depositRecord ''2023-11-15'' (Finite 200) (Finite 300),
              withdrawalRecord ''2023-11-20'' (Finite 50) (Finite 250)]\<rparr>"

definition oldLedger :: account where
  "oldLedger =
     (opened ''1000000010'' (Finite 300))\<lparr>transactions :=
        Some [depositRecord ''1900-01-01T00:00:00.000Z'' (Finite 200) (Finite 300)]\<rparr>"

definition noFilter :: options where
  "noFilter = \<lparr>startDate = None, endDate = None, opt_type = None\<rparr>"

definition novemberDeposits :: options where
  "novemberDeposits =
     \<lparr>startDate = Some ''2023-11-01'', endDate = Some ''2023-11-30'',
      opt_type = Some ''deposit''\<rparr>"

definition sinceYear50 :: options where
  "sinceYear50 = \<lparr>startDate = Some ''0050-01-01'', endDate = None, opt_type = None\<rparr>"

section \<open>Basic facts about numbers and the account helpers\<close>

lemma num_sub_Finite [simp]: "num_sub (Finite x) (Finite y) = roundDouble (x - y)"
  by (simp add: num_sub_def)

lemma num_gt_Finite [simp]: "num_gt (Finite x) (Finite y) = (y < x)"
  by (simp add: num_gt_def)

lemma num_le_Finite [simp]: "num_le (Finite x) (Finite y) = (x \<le> y)"
  by (auto simp: num_le_def)

lemma num_le_NaN [simp]: "num_le NaN b = False" "num_le a NaN = False"
  by (cases a; simp add: num_le_def)+

lemma num_gt_NaN [simp]: "num_gt NaN b = False" "num_gt a NaN = False"
  by (cases a; cases b; simp add: num_gt_def)+

lemma not_num_le_zero: "x \<noteq> NaN \<Longrightarrow> (\<not> num_le x (Finite 0)) = num_gt x (Finite 0)"
  by (cases x) (auto simp: num_le_def num_gt_def)

lemma num_gt_mono: "num_gt a (Finite b) \<Longrightarrow> c \<le> b \<Longrightarrow> num_gt a (Finite c)"
  by (cases a) (auto simp: num_gt_def)

lemma roundHalfEven_of_int [simp]: "roundHalfEven (of_int k) = k"
  by (simp add: roundHalfEven_def)

lemma roundDouble_isDouble:
  assumes "isDouble x"
  shows "roundDouble x = Finite x"
proof (cases "x = 0")
  case True
  then show ?thesis by (simp add: roundDouble_def)
next
  case False
  with assms have e: "exponent x < 1024"
    and q: "\<bar>x\<bar> / ulp x = of_int \<lfloor>\<bar>x\<bar> / ulp x\<rfloor>"
    by (simp_all add: isDouble_def)
  have u: "ulp x \<noteq> 0" by (simp add: ulp_def pow2_def)
  have "of_int (roundHalfEven (\<bar>x\<bar> / ulp x)) * ulp x = \<bar>x\<bar>"
    using q u by (metis nonzero_divide_eq_eq roundHalfEven_of_int)
  moreover have "exponent \<bar>x\<bar> = exponent x" by (simp add: exponent_def)
  ultimately show ?thesis
    using False e by (simp add: roundDouble_def Let_def)
qed

lemma exponent_abs [simp]: "exponent \<bar>x\<bar> = exponent x"
  by (simp add: exponent_def)

lemma bitlen_one: "bitlen 1 = 1"
  by (subst compute_bitlen) simp

lemma exponent_of_pos:
  assumes "0 < m"
  shows "exponent (of_int m) = bitlen m - 1"
proof -
  have a: "\<bar>of_int m :: rat\<bar> = of_int m" using assms by simp
  have q: "quotient_of (of_int m) = (m, 1)"
    by (simp add: of_int_rat quotient_of_Fract)
  have ge: "1 \<le> bitlen m" using assms bitlen_eq_zero_iff [of m] bitlen_nonneg [of m] by linarith
  have "(2::int) ^ nat (bitlen m - 1) \<le> m"
    using bitlen_bounds [OF assms] by blast
  then have "(of_int (2 ^ nat (bitlen m - 1)) :: rat) \<le> of_int m"
    by (simp only: of_int_le_iff)
  then have "pow2 (bitlen m - 1) \<le> of_int m"
    using ge by (simp add: pow2_def)
  then show ?thesis
    unfolding exponent_def a q by (simp add: bitlen_one)
qed

lemma exponent_of_int:
  assumes "n \<noteq> 0"
  shows "exponent (of_int n) = bitlen \<bar>n\<bar> - 1"
proof -
  have "exponent (of_int n) = exponent (of_int \<bar>n\<bar>)"
    by (metis exponent_abs of_int_abs)
  also have "\<dots> = bitlen \<bar>n\<bar> - 1"
    using assms by (intro exponent_of_pos) simp
  finally show ?thesis .
qed

lemma isDouble_of_int:
  assumes "\<bar>n\<bar> \<le> 2 ^ 53"
  shows "isDouble (of_int n)"
proof (cases "n = 0")
  case True
  then show ?thesis by (simp add: isDouble_def)
next
  case False
  then have p: "0 < \<bar>n\<bar>" by simp
  define e where "e = bitlen \<bar>n\<bar> - 1"
  have ex: "exponent (of_int n) = e"
    using exponent_of_int [OF False] by (simp add: e_def)
  have ge: "0 \<le> e"
    using p bitlen_eq_zero_iff [of "\<bar>n\<bar>"] bitlen_nonneg [of "\<bar>n\<bar>"] unfolding e_def by linarith
  have "\<bar>n\<bar> < 2 ^ nat 54" using assms by simp
  then have "bitlen \<bar>n\<bar> \<le> 54" by (simp add: bitlen_le_iff_power)
  then have le: "e \<le> 53" by (simp add: e_def)
  have "\<exists>k. \<bar>of_int n :: rat\<bar> / ulp (of_int n) = of_int k"
  proof (cases "e \<le> 52")
    case True
    then have "ulp (of_int n) = 1 / 2 ^ nat (52 - e)"
      using ge by (auto simp: ulp_def ex pow2_def max_def)
    then have "\<bar>of_int n :: rat\<bar> / ulp (of_int n) = of_int (\<bar>n\<bar> * 2 ^ nat (52 - e))"
      by simp
    then show ?thesis by blast
  next
    case False
    then have e53: "e = 53" using le by simp
    then have "bitlen \<bar>n\<bar> = 54" by (simp add: e_def)
    then have "2 ^ 53 \<le> \<bar>n\<bar>" using bitlen_bounds [OF p] by simp
    then have n: "\<bar>n\<bar> = 2 ^ 53" using assms by simp
    have "ulp (of_int n) = 2" by (simp add: ulp_def ex e53 pow2_def)
    then have "\<bar>of_int n :: rat\<bar> / ulp (of_int n) = of_int (2 ^ 52)"
      by (simp add: n flip: of_int_abs)
    then show ?thesis by blast
  qed
  then obtain k where "\<bar>of_int n :: rat\<bar> / ulp (of_int n) = of_int k" by blast
  then have "\<bar>of_int n :: rat\<bar> / ulp (of_int n) = of_int \<lfloor>\<bar>of_int n :: rat\<bar> / ulp (of_int n)\<rfloor>"
    by simp
  then show ?thesis
    using le by (simp add: isDouble_def ex)
qed

lemma roundDouble_of_int:
  "\<bar>n\<bar> \<le> 2 ^ 53 \<Longrightarrow> roundDouble (of_int n) = Finite (of_int n)"
  by (rule roundDouble_isDouble [OF isDouble_of_int])

lemma roundDouble_numeral [simp]:
  "numeral k \<le> (2 ^ 53 :: int) \<Longrightarrow> roundDouble (numeral k) = Finite (numeral k)"
  "numeral k \<le> (2 ^ 53 :: int) \<Longrightarrow> roundDouble (- numeral k) = Finite (- numeral k)"
  "roundDouble 0 = Finite 0"
  using roundDouble_of_int [of "numeral k"] roundDouble_of_int [of "- numeral k"]
  by (simp_all add: roundDouble_def)

lemma txns_ensureTransactions [simp]: "txns (ensureTransactions a) = txns a"
  by (simp add: txns_def ensureTransactions_def split: option.splits)

lemma balance_ensureTransactions [simp]: "balance (ensureTransactions a) = balance a"
  by (simp add: ensureTransactions_def split: option.splits)

lemma accountNumber_ensureTransactions [simp]:
  "accountNumber (ensureTransactions a) = accountNumber a"
  by (simp add: ensureTransactions_def split: option.splits)

lemma txns_push [simp]: "txns (push t a) = txns a @ [t]"
  by (simp add: push_def txns_def)

lemma balance_push [simp]: "balance (push t a) = balance a"
  by (simp add: push_def)

lemma accountNumber_push [simp]: "accountNumber (push t a) = accountNumber a"
  by (simp add: push_def)

lemma txns_balance_update [simp]: "txns (a\<lparr>balance := b\<rparr>) = txns a"
  by (simp add: txns_def)

lemma trim_names [simp]:
  "trim ''John'' = ''John''" "trim ''Doe'' = ''Doe''" "trim ''Alice'' = ''Alice''"
  "trim ''Johnson'' = ''Johnson''"
  by code_simp+

lemma requirePositiveNumber_positive:
  "num_gt x (Finite 0) \<Longrightarrow> requirePositiveNumber (JNum x) fieldName = Inr x"
  by (cases x) (auto simp: requirePositiveNumber_def num_le_def num_gt_def)

lemma requirePositiveNumber_raises:
  "(\<exists>e. requirePositiveNumber v fieldName = Inl e) = (\<not> positiveNumber v)"
proof (cases v)
  case (JNum x)
  then show ?thesis
    by (cases x) (auto simp: requirePositiveNumber_def positiveNumber_def num_le_def num_gt_def)
next
  case JOther
  then show ?thesis by (simp add: requirePositiveNumber_def positiveNumber_def)
qed

text \<open>
  The registry opens an account for every deposit that is a number and not below 50,
  \<open>Infinity\<close> included.
\<close>

lemma generateBankAccount_opened:
  assumes "b \<noteq> NaN" and "\<not> num_lt b (Finite 50)"
  shows "generateBankAccount ''2026-01-01T00:00:00.000Z'' [n] []
           (Some \<lparr>data_firstName = Some ''John'', data_lastName = Some ''Doe'',
                  initialDeposit = JNum b\<rparr>) = Some (Inr (opened n b), [opened n b])"
  using assms
  by (simp add: generateBankAccount_def requireNonEmptyString_def opened_def Let_def)

lemma txns_opened [simp]: "txns (opened n b) = []"
  by (simp add: txns_def opened_def)

lemma balance_opened [simp]: "balance (opened n b) = b"
  by (simp add: opened_def)

section \<open>Withdrawal\<close>

lemma withdrawal_overdraft:
  assumes "num_gt amt (Finite 0)" and "num_gt amt (balance a)"
  shows "fst (withdrawal now a (JNum amt)) = Inr (summary_of (snd (withdrawal now a (JNum amt))))"
    and "balance (snd (withdrawal now a (JNum amt))) = num_sub (balance a) (Finite 5)"
    and "txns (snd (withdrawal now a (JNum amt))) =
           txns a @ [overdraftRecord now amt (num_sub (balance a) (Finite 5))]"
  using assms
  by (simp_all add: withdrawal_def requirePositiveNumber_positive Let_def overdraftRecord_def)





lemma withdrawal_returns:
  assumes "num_gt amt (Finite 0)"
  shows "fst (withdrawal now a (JNum amt)) = Inr (summary_of (snd (withdrawal now a (JNum amt))))"
  using assms by (simp add: withdrawal_def requirePositiveNumber_positive Let_def)

lemma overdraft_exact:
  assumes "num_gt amt (Finite 0)" and "num_gt amt (whole b)" and "balance a = whole b"
    and "b \<le> 2 ^ 53" and "- (2 ^ 53) \<le> b - 5"
  shows "balance (snd (withdrawal now a (JNum amt))) = whole (b - 5)"
proof -
  have "\<bar>b - 5\<bar> \<le> 2 ^ 53" using assms(4,5) by simp
  then have "roundDouble (of_int (b - 5)) = Finite (of_int (b - 5))"
    by (rule roundDouble_of_int)
  then show ?thesis
    using withdrawal_overdraft(2) [of amt a now] assms(1,2,3)
    by (simp add: whole_def)
qed

lemma withdrawals_exact:
  assumes "num_gt amt (Finite 0)"
  shows "balance a = whole b \<Longrightarrow> num_gt amt (whole b) \<Longrightarrow> b \<le> 2 ^ 53 \<Longrightarrow>
         - (2 ^ 53) \<le> b - 5 * int (length nows) \<Longrightarrow>
         balance (withdrawals nows a (JNum amt)) = whole (b - 5 * int (length nows))"
proof (induction nows arbitrary: a b)
  case Nil
  then show ?case by simp
next
  case (Cons now nows)
  let ?a1 = "snd (withdrawal now a (JNum amt))"
  have lo: "- (2 ^ 53) \<le> b - 5" using Cons.prems(4) by simp
  have b1: "balance ?a1 = whole (b - 5)"
    by (rule overdraft_exact [OF assms Cons.prems(2) Cons.prems(1) Cons.prems(3) lo])
  have gt: "num_gt amt (whole (b - 5))"
    using Cons.prems(2) num_gt_mono [of amt "of_int b" "of_int (b - 5)"]
    by (simp add: whole_def)
  have "balance (withdrawals nows ?a1 (JNum amt)) = whole (b - 5 - 5 * int (length nows))"
    using Cons.prems(3,4) by (intro Cons.IH [OF b1 gt]) simp_all
  then show ?case by (simp add: algebra_simps)
qed

lemma penalty_absorbed: "num_sub (Finite (- (2 ^ 56))) (Finite 5) = Finite (- (2 ^ 56))"
  by code_simp

lemma withdrawals_stuck:
  assumes "num_gt amt (Finite 0)"
  shows "balance a = Finite (- (2 ^ 56)) \<Longrightarrow>
         balance (withdrawals nows a (JNum amt)) = Finite (- (2 ^ 56))"
proof (induction nows arbitrary: a)
  case Nil
  then show ?case by simp
next
  case (Cons now nows)
  have "num_gt amt (Finite (- (2 ^ 56)))"
    using num_gt_mono [OF assms, of "- (2 ^ 56)"] by simp
  then have "balance (snd (withdrawal now a (JNum amt))) = Finite (- (2 ^ 56))"
    using withdrawal_overdraft(2) [of amt a now] assms Cons.prems penalty_absorbed
    by simp
  then show ?case using Cons.IH by simp
qed

text \<open>
  C8, amended. For a positive amount \<open>withdrawal\<close> never raises, whatever the balance, also
  zero or negative, and a request above the balance sets the balance to \<open>balance - 5\<close> as
  the engine computes it; there is no check against a lower limit. From a whole-number
  balance, \<open>n\<close> such requests take exactly \<open>5 n\<close> as long as the result is not below \<open>-2^53\<close>,
  so every bound from \<open>-2^53 + 5\<close> up is undercut by some run of withdrawals. At \<open>-2^56\<close>
  the rounded subtraction leaves the balance where it is, however often it is repeated.
\<close>

theorem withdrawal_no_floor:
  assumes "num_gt amt (Finite 0)"
  shows "(\<exists>s. fst (withdrawal now a (JNum amt)) = Inr s) \<and>
         (num_gt amt (balance a) \<longrightarrow>
            balance (snd (withdrawal now a (JNum amt))) = num_sub (balance a) (Finite 5)) \<and>
         (\<forall>b. balance a = whole b \<and> num_gt amt (balance a) \<and> b \<le> 2 ^ 53 \<and>
              - (2 ^ 53) \<le> b - 5 * int (length nows) \<longrightarrow>
              balance (withdrawals nows a (JNum amt)) = whole (b - 5 * int (length nows))) \<and>
         (\<forall>b lim. balance a = whole b \<and> num_gt amt (balance a) \<and> b \<le> 2 ^ 53 \<and>
              - (2 ^ 53) + 5 \<le> lim \<longrightarrow>
              (\<exists>nows' c. balance (withdrawals nows' a (JNum amt)) = whole c \<and> c < lim)) \<and>
         (balance a = Finite (- (2 ^ 56)) \<longrightarrow>
            balance (withdrawals nows a (JNum amt)) = Finite (- (2 ^ 56)))"
proof (intro conjI impI allI)
  show "\<exists>s. fst (withdrawal now a (JNum amt)) = Inr s"
    using withdrawal_returns [OF assms] by blast
next
  assume "num_gt amt (balance a)"
  then show "balance (snd (withdrawal now a (JNum amt))) = num_sub (balance a) (Finite 5)"
    by (rule withdrawal_overdraft(2) [OF assms])
next
  fix b
  assume "balance a = whole b \<and> num_gt amt (balance a) \<and> b \<le> 2 ^ 53 \<and>
          - (2 ^ 53) \<le> b - 5 * int (length nows)"
  then have "balance a = whole b" "num_gt amt (whole b)" "b \<le> 2 ^ 53"
    "- (2 ^ 53) \<le> b - 5 * int (length nows)"
    by auto
  then show "balance (withdrawals nows a (JNum amt)) = whole (b - 5 * int (length nows))"
    by (rule withdrawals_exact [OF assms])
next
  fix b lim :: int
  assume h: "balance a = whole b \<and> num_gt amt (balance a) \<and> b \<le> 2 ^ 53 \<and>
             - (2 ^ 53) + 5 \<le> lim"
  show "\<exists>nows' c. balance (withdrawals nows' a (JNum amt)) = whole c \<and> c < lim"
  proof (cases "b < lim")
    case True
    then have "balance (withdrawals [] a (JNum amt)) = whole b \<and> b < lim"
      using h by simp
    then show ?thesis by blast
  next
    case False
    define n where "n = nat ((b - lim) div 5 + 1)"
    have n: "int n = (b - lim) div 5 + 1" using False by (simp add: n_def)
    define q r where "q = (b - lim) div 5" and "r = (b - lim) mod 5"
    have qr: "q * 5 + r = b - lim" unfolding q_def r_def by (rule div_mult_mod_eq)
    have r: "0 \<le> r" "r < 5" by (simp_all add: r_def)
    have n': "int n = q + 1" using n by (simp add: q_def)
    have n5: "5 * int n = 5 * q + 5" using n' by simp
    have up: "b - 5 * int n < lim" using qr r n5 by linarith
    have "lim - 5 \<le> b - 5 * int n" using qr r n5 by linarith
    then have lo: "- (2 ^ 53) \<le> b - 5 * int (length (replicate n now))"
      using h by simp
    have hs: "balance a = whole b" "num_gt amt (whole b)" "b \<le> 2 ^ 53"
      using h by auto
    have "balance (withdrawals (replicate n now) a (JNum amt)) =
            whole (b - 5 * int (length (replicate n now)))"
      by (rule withdrawals_exact [OF assms hs lo])
    then have "balance (withdrawals (replicate n now) a (JNum amt)) = whole (b - 5 * int n) \<and>
               b - 5 * int n < lim"
      using up by simp
    then show ?thesis by blast
  qed
next
  assume "balance a = Finite (- (2 ^ 56))"
  then show "balance (withdrawals nows a (JNum amt)) = Finite (- (2 ^ 56))"
    by (rule withdrawals_stuck [OF assms])
qed

theorem withdrawal_no_floor_witness:
  "num_gt (Finite 1) (Finite 0) \<and>
   balance (opened ''1000000002'' (Finite (- 10))) = whole (- 10) \<and>
   num_gt (Finite 1) (balance (opened ''1000000002'' (Finite (- 10)))) \<and>
   (- 10 :: int) \<le> 2 ^ 53 \<and> - (2 ^ 53) \<le> (- 10 :: int) - 5 * int (length [t10, t11, t12]) \<and>
   (\<exists>s. fst (withdrawal t10 (opened ''1000000002'' (Finite (- 10))) (JNum (Finite 1))) = Inr s) \<and>
   balance (snd (withdrawal t10 (opened ''1000000002'' (Finite (- 10))) (JNum (Finite 1)))) =
     Finite (- 15) \<and>
   balance (withdrawals [t10, t11, t12] (opened ''1000000002'' (Finite (- 10))) (JNum (Finite 1))) =
     whole (- 25) \<and>
   (\<exists>nows' c. balance (withdrawals nows' (opened ''1000000002'' (Finite (- 10)))
                 (JNum (Finite 1))) = whole c \<and> c < - 1000) \<and>
   balance sunk = Finite (- (2 ^ 56)) \<and>
   balance (withdrawals [t10, t11, t12] sunk (JNum (Finite 1))) = Finite (- (2 ^ 56))"
proof -
  note w = withdrawal_no_floor [of "Finite 1" t10 "opened ''1000000002'' (Finite (- 10))"
      "[t10, t11, t12]"]
  note s = withdrawal_no_floor [of "Finite 1" t10 sunk "[t10, t11, t12]"]
  have p: "num_gt (Finite 1) (Finite 0)" by simp
  have b: "balance (opened ''1000000002'' (Finite (- 10))) = whole (- 10)"
    by (simp add: whole_def)
  have c1: "\<exists>s. fst (withdrawal t10 (opened ''1000000002'' (Finite (- 10))) (JNum (Finite 1))) = Inr s"
    using w [OF p] by blast
  have c2: "balance (snd (withdrawal t10 (opened ''1000000002'' (Finite (- 10))) (JNum (Finite 1)))) =
     Finite (- 15)"
    using w [OF p, THEN conjunct2, THEN conjunct1] by simp
  have c3: "balance (withdrawals [t10, t11, t12] (opened ''1000000002'' (Finite (- 10)))
              (JNum (Finite 1))) = whole (- 25)"
    using w [OF p, THEN conjunct2, THEN conjunct2, THEN conjunct1, rule_format, of "- 10"] b
    by simp
  have c4: "\<exists>nows' c. balance (withdrawals nows' (opened ''1000000002'' (Finite (- 10)))
                 (JNum (Finite 1))) = whole c \<and> c < - 1000"
    using w [OF p, THEN conjunct2, THEN conjunct2, THEN conjunct2, THEN conjunct1, rule_format,
        of "- 10" "- 1000"] b
    by simp
  have k: "balance sunk = Finite (- (2 ^ 56))" by (simp add: sunk_def)
  have c5: "balance (withdrawals [t10, t11, t12] sunk (JNum (Finite 1))) = Finite (- (2 ^ 56))"
    using s [OF p, THEN conjunct2, THEN conjunct2, THEN conjunct2, THEN conjunct2] k by blast
  have g: "num_gt (Finite 1) (balance (opened ''1000000002'' (Finite (- 10))))" by simp
  have a: "(- 10 :: int) \<le> 2 ^ 53"
    "- (2 ^ 53) \<le> (- 10 :: int) - 5 * int (length [t10, t11, t12])"
    by simp_all
  show ?thesis using p b g a c1 c2 c3 c4 k c5 by blast
qed

text \<open>
  C8 as stated fails at \<open>-2^56\<close>: a request above the balance takes the overdraft path and
  writes its record, but \<open>-2^56 - 5\<close> rounds back to \<open>-2^56\<close>. The balance does not
  decrease by 5, and no number of further requests brings it lower.
\<close>

theorem withdrawal_floor_counterexample:
  "balance sunk = Finite (- (2 ^ 56)) \<and>
   num_gt (Finite 1) (Finite 0) \<and> num_gt (Finite 1) (balance sunk) \<and>
   fst (withdrawal t10 sunk (JNum (Finite 1))) =
     Inr (summary_of (snd (withdrawal t10 sunk (JNum (Finite 1))))) \<and>
   txns (snd (withdrawal t10 sunk (JNum (Finite 1)))) =
     [overdraftRecord t10 (Finite 1) (Finite (- (2 ^ 56)))] \<and>
   balance (snd (withdrawal t10 sunk (JNum (Finite 1)))) = Finite (- (2 ^ 56)) \<and>
   balance (withdrawals [t10, t11, t12] sunk (JNum (Finite 1))) = Finite (- (2 ^ 56))"
  by code_simp

section \<open>Interest, the ledger invariant and transfers\<close>

lemma replay_append [simp]: "replay b (ts @ [t]) = num_add (replay b ts) (effect t)"
  by (induction ts arbitrary: b) simp_all

lemma recordsAgree_append [simp]:
  "recordsAgree b (ts @ [t]) =
     (recordsAgree b ts \<and> newBalance t = num_add (replay b ts) (effect t))"
  by (induction ts arbitrary: b) auto

lemma effect_records [simp]:
  "effect (depositRecord now amt nb) = amt"
  "effect (overdraftRecord now amt nb) = Finite (- 5)"
  "effect (withdrawalRecord now amt nb) = num_neg amt"
  "effect (interestRecord now amt nb) = amt"
  "effect (transferOutRecord now amt nb d) = num_neg amt"
  "effect (transferInRecord now amt nb d) = amt"
  by (simp_all add: effect_def depositRecord_def overdraftRecord_def withdrawalRecord_def
      interestRecord_def transferOutRecord_def transferInRecord_def)

lemma newBalance_records [simp]:
  "newBalance (depositRecord now amt nb) = nb"
  "newBalance (overdraftRecord now amt nb) = nb"
  "newBalance (withdrawalRecord now amt nb) = nb"
  "newBalance (interestRecord now amt nb) = nb"
  "newBalance (transferOutRecord now amt nb d) = nb"
  "newBalance (transferInRecord now amt nb d) = nb"
  by (simp_all add: depositRecord_def overdraftRecord_def withdrawalRecord_def
      interestRecord_def transferOutRecord_def transferInRecord_def)

lemma calculateSaving_above:
  assumes "\<not> num_le (balance a) (Finite 500)"
  shows "balance (snd (calculateSaving now a)) = balance a"
    and "txns (snd (calculateSaving now a)) =
           txns a @ [interestRecord now (num_mul (balance a) rate)
                       (num_add (balance a) (num_mul (balance a) rate))]"
    and "sum_balance (fst (fst (calculateSaving now a))) =
           num_add (balance a) (num_mul (balance a) rate)"
    and "interestApplied (fst (fst (calculateSaving now a))) = None"
  using assms by (simp_all add: calculateSaving_def Let_def interestRecord_def summary_of_def)

lemma calculateSaving_below:
  assumes "num_le (balance a) (Finite 500)"
  shows "balance (snd (calculateSaving now a)) = balance a"
    and "txns (snd (calculateSaving now a)) = txns a"
    and "message (fst (fst (calculateSaving now a))) = None"
    and "snd (fst (calculateSaving now a)) = [LowBalanceLog (balance a)]"
  using assms by (simp_all add: calculateSaving_def Let_def summary_of_def)

text \<open>
  The interest on 1000 as the engine computes it: \<open>1000 * 0.00167\<close> is the double
  \<open>1.6700000000000002\<close>, and \<open>1000 + 1.6700000000000002\<close> is the double \<open>1001.67\<close>.
\<close>

lemma interest_on_1000:
  "num_mul (Finite 1000) rate = literal (16700000000000002 / 10 ^ 16)"
  "num_add (Finite 1000) (literal (16700000000000002 / 10 ^ 16)) = literal (100167 / 100)"
  "literal (100167 / 100) \<noteq> Finite 1000"
  by code_simp+

text \<open>
  C2. \<open>calculateSaving\<close> of \<open>services/interestService.js\<close>, run on an account of balance
  1000: the \<open>INTEREST\<close> record of \<open>1000 * 0.00167\<close> is appended with \<open>newBalance\<close> 1001.67
  and the returned summary shows 1001.67, but the stored balance stays 1000 and the
  summary has no \<open>interestApplied\<close>. On an account of balance 500 the summary has no
  \<open>message\<close>; the text goes to the console. The claim asks for the balance to be credited
  and for both fields, as the browser bundle's copy does (\<open>calculateSaving_browser_spec\<close>).
\<close>

theorem calculateSaving_does_not_credit:
  "balance (snd (calculateSaving t11 alice)) = Finite 1000 \<and>
   txns (snd (calculateSaving t11 alice)) =
     [interestRecord t11 (literal (16700000000000002 / 10 ^ 16)) (literal (100167 / 100))] \<and>
   sum_balance (fst (fst (calculateSaving t11 alice))) = literal (100167 / 100) \<and>
   literal (100167 / 100) \<noteq> Finite 1000 \<and>
   interestApplied (fst (fst (calculateSaving t11 alice))) = None \<and>
   message (fst (fst (calculateSaving t11 (opened ''1000000006'' (Finite 500))))) = None \<and>
   snd (fst (calculateSaving t11 (opened ''1000000006'' (Finite 500)))) =
     [LowBalanceLog (Finite 500)]"
  using calculateSaving_above [of alice t11]
    calculateSaving_below [of "opened ''1000000006'' (Finite 500)" t11] interest_on_1000
  by (simp add: alice_def txns_def)

text \<open>
  The browser bundle's \<open>calculateSaving\<close>, for every account: at or below 500 nothing
  changes and the summary carries the message; above 500 the interest is recorded and
  credited, and the summary carries the new balance and \<open>interestApplied\<close>.
\<close>

lemma calculateSaving_browser_spec:
  "let r = calculateSaving_browser now a;
       interest = num_mul (balance a) rate
   in if num_le (balance a) (Finite 500)
      then balance (snd r) = balance a \<and> txns (snd r) = txns a \<and>
           message (fst r) = Some (BelowThreshold (balance a)) \<and>
           sum_balance (fst r) = balance a \<and> interestApplied (fst r) = None
      else balance (snd r) = num_add (balance a) interest \<and>
           txns (snd r) = txns a @ [interestRecord now interest (num_add (balance a) interest)] \<and>
           sum_balance (fst r) = num_add (balance a) interest \<and>
           interestApplied (fst r) = Some interest"
  by (simp add: calculateSaving_browser_def Let_def interestRecord_def summary_of_def)

text \<open>
  C1. An account opened by the registry with 1000, then \<open>calculateSaving\<close> of
  \<open>services/interestService.js\<close>: the initial deposit plus the signed effects of the
  recorded transactions is 1001.67 and the record's \<open>newBalance\<close> is 1001.67, but the
  balance is 1000. The ledger invariant of the claim is broken by the same missing
  credit as in C2; with the browser bundle's copy it holds for every run of operations
  (\<open>ledger_run_browser\<close>).
\<close>

theorem interest_breaks_ledger:
  "generateBankAccount t10 [''1000000003''] []
     (Some \<lparr>data_firstName = Some ''Alice'', data_lastName = Some ''Johnson'',
            initialDeposit = JNum (Finite 1000)\<rparr>) = Some (Inr alice, [alice]) \<and>
   balance (snd (calculateSaving t11 alice)) = Finite 1000 \<and>
   replay (Finite 1000) (txns (snd (calculateSaving t11 alice))) = literal (100167 / 100) \<and>
   newBalance (last (txns (snd (calculateSaving t11 alice)))) = literal (100167 / 100) \<and>
   literal (100167 / 100) \<noteq> Finite 1000 \<and>
   ledgerInvariant (Finite 1000) (snd (calculateSaving t11 alice)) = False"
proof -
  have g: "generateBankAccount t10 [''1000000003''] []
     (Some \<lparr>data_firstName = Some ''Alice'', data_lastName = Some ''Johnson'',
            initialDeposit = JNum (Finite 1000)\<rparr>) = Some (Inr alice, [alice])"
    by (simp add: generateBankAccount_def requireNonEmptyString_def alice_def Let_def)
  have b: "\<not> num_le (balance alice) (Finite 500)" by (simp add: alice_def)
  have t: "txns alice = []" by (simp add: alice_def txns_def)
  show ?thesis
    using g calculateSaving_above(1,2) [OF b, of t11] t interest_on_1000
    by (simp add: ledgerInvariant_def alice_def)
qed

lemma transferMoney_raises:
  "(\<exists>e. fst (transferMoney now1 now2 h src dst v) = Inl e) =
     (\<not> hasIdentifier h src \<or> \<not> hasIdentifier h dst \<or> \<not> positiveNumber v \<or>
      exceedsBalance h src v)"
proof (cases "positiveNumber v")
  case False
  then obtain e where "requirePositiveNumber v ''Amount'' = Inl e"
    using requirePositiveNumber_raises [of v "''Amount''"] by blast
  with False show ?thesis
    by (cases src; cases dst) (auto simp: hasIdentifier_def)
next
  case True
  then obtain amt where v: "v = JNum amt" and p: "num_gt amt (Finite 0)"
    by (cases v) (auto simp: positiveNumber_def)
  show ?thesis
    using True
    by (cases src; cases dst)
       (auto simp: v hasIdentifier_def exceedsBalance_def requirePositiveNumber_positive [OF p]
          Let_def)
qed

lemma transferMoney_error_unchanged:
  "fst (transferMoney now1 now2 h src dst v) = Inl e \<Longrightarrow>
   snd (transferMoney now1 now2 h src dst v) = h"
  by (cases src; cases dst; cases "requirePositiveNumber v ''Amount''")
     (auto simp: Let_def split: if_splits)

lemma transferMoney_success:
  assumes "truthy (accountNumber (h f))" and "truthy (accountNumber (h t))"
    and "num_gt amt (Finite 0)" and "\<not> num_gt amt (balance (h f))"
  shows "transferMoney now1 now2 h (Some f) (Some t) (JNum amt) =
     (let hf = (h f)\<lparr>balance := num_sub (balance (h f)) amt,
                     transactions := Some (txns (h f) @
                       [transferOutRecord now1 amt (num_sub (balance (h f)) amt)
                          (accountNumber (h t))])\<rparr>;
          h4 = h(f := hf);
          ht = (h4 t)\<lparr>balance := num_add (balance (h4 t)) amt,
                      transactions := Some (txns (h4 t) @
                        [transferInRecord now2 amt (num_add (balance (h4 t)) amt)
                           (accountNumber (h f))])\<rparr>;
          h6 = h4(t := ht)
      in (Inr (summary_of (h6 f), summary_of (h6 t)), h6))"
  using assms
  by (auto simp: requirePositiveNumber_positive Let_def push_def ensureTransactions_def txns_def
      transferOutRecord_def transferInRecord_def fun_upd_def summary_of_def
      split: option.splits)

text \<open>
  C4. \<open>transferMoney\<close> raises exactly when the source or the destination has no account
  number, or the amount is not a positive number, or the amount exceeds the source's
  balance. When it raises, the store is as it was: no balance and no transaction list has
  changed. When it returns, the debit and the credit are both applied and recorded, each
  as the engine computes it (\<open>num_sub\<close>, \<open>num_add\<close>: the nearest double); on one and the
  same account the credit follows the debit; and no other account is touched.
\<close>

theorem transferMoney_validates_first:
  "let r = transferMoney now1 now2 h src dst v in
     ((\<exists>e. fst r = Inl e) =
        (\<not> hasIdentifier h src \<or> \<not> hasIdentifier h dst \<or> \<not> positiveNumber v \<or>
         exceedsBalance h src v)) \<and>
     ((\<exists>e. fst r = Inl e) \<longrightarrow> snd r = h) \<and>
     (\<forall>f t amt. src = Some f \<and> dst = Some t \<and> v = JNum amt \<and> (\<exists>s. fst r = Inr s) \<longrightarrow>
        fst r = Inr (summary_of (snd r f), summary_of (snd r t)) \<and>
        (\<forall>p. p \<noteq> f \<and> p \<noteq> t \<longrightarrow> snd r p = h p) \<and>
        (if f = t
         then balance (snd r f) = num_add (num_sub (balance (h f)) amt) amt \<and>
              txns (snd r f) = txns (h f) @
                [transferOutRecord now1 amt (num_sub (balance (h f)) amt)
                   (accountNumber (h f)),
                 transferInRecord now2 amt (num_add (num_sub (balance (h f)) amt) amt)
                   (accountNumber (h f))]
         else balance (snd r f) = num_sub (balance (h f)) amt \<and>
              txns (snd r f) = txns (h f) @
                [transferOutRecord now1 amt (num_sub (balance (h f)) amt)
                   (accountNumber (h t))] \<and>
              balance (snd r t) = num_add (balance (h t)) amt \<and>
              txns (snd r t) = txns (h t) @
                [transferInRecord now2 amt (num_add (balance (h t)) amt)
                   (accountNumber (h f))]))"
proof -
  let ?r = "transferMoney now1 now2 h src dst v"
  have a: "(\<exists>e. fst ?r = Inl e) =
        (\<not> hasIdentifier h src \<or> \<not> hasIdentifier h dst \<or> \<not> positiveNumber v \<or>
         exceedsBalance h src v)"
    by (rule transferMoney_raises)
  have b: "(\<exists>e. fst ?r = Inl e) \<longrightarrow> snd ?r = h"
    using transferMoney_error_unchanged by blast
  have c: "fst ?r = Inr (summary_of (snd ?r f), summary_of (snd ?r t)) \<and>
        (\<forall>p. p \<noteq> f \<and> p \<noteq> t \<longrightarrow> snd ?r p = h p) \<and>
        (if f = t
         then balance (snd ?r f) = num_add (num_sub (balance (h f)) amt) amt \<and>
              txns (snd ?r f) = txns (h f) @
                [transferOutRecord now1 amt (num_sub (balance (h f)) amt)
                   (accountNumber (h f)),
                 transferInRecord now2 amt (num_add (num_sub (balance (h f)) amt) amt)
                   (accountNumber (h f))]
         else balance (snd ?r f) = num_sub (balance (h f)) amt \<and>
              txns (snd ?r f) = txns (h f) @
                [transferOutRecord now1 amt (num_sub (balance (h f)) amt)
                   (accountNumber (h t))] \<and>
              balance (snd ?r t) = num_add (balance (h t)) amt \<and>
              txns (snd ?r t) = txns (h t) @
                [transferInRecord now2 amt (num_add (balance (h t)) amt)
                   (accountNumber (h f))])"
    if h1: "src = Some f" "dst = Some t" "v = JNum amt" and h2: "\<exists>s. fst ?r = Inr s"
    for f t amt
  proof -
    have ne: "\<not> (\<exists>e. fst ?r = Inl e)" using h2 by auto
    then have ok: "truthy (accountNumber (h f))" "truthy (accountNumber (h t))"
      "num_gt amt (Finite 0)" "\<not> num_gt amt (balance (h f))"
      using a h1
      by (auto simp: hasIdentifier_def positiveNumber_def exceedsBalance_def)
    show ?thesis
      unfolding h1 transferMoney_success [OF ok]
      by (simp add: Let_def txns_def)
  qed
  show ?thesis
    unfolding Let_def using a b c by blast
qed

declare transferMoney.simps [simp del]

lemma bank_simps [simp]:
  "bank refA = opened ''1000000004'' (Finite 300)" "bank refB = opened ''1000000005'' (Finite 100)"
  "unevenBank refA = opened ''1000000011'' (Finite 50)"
  "unevenBank refB = opened ''1000000012'' (Finite (10 ^ 17))"
  "centsBank refA = opened ''1000000013'' (literal (16133 / 100))"
  "refA \<noteq> refB" "refB \<noteq> refA"
  by (simp_all add: bank_def unevenBank_def centsBank_def refA_def refB_def)

lemma truthy_simps [simp]: "truthy None = False" "truthy (Some s) = (s \<noteq> [])"
  by (simp_all add: truthy_def)

lemma accountNumber_opened [simp]: "accountNumber (opened n b) = Some n"
  by (simp add: opened_def)

lemma absorbed_credit: "num_add (Finite (10 ^ 17)) (Finite 1) = Finite (10 ^ 17)"
  by code_simp

theorem transferMoney_validates_first_witness:
  "(\<exists>s. fst (transferMoney t10 t11 bank (Some refA) (Some refB) (JNum (Finite 25))) = Inr s) \<and>
   balance (snd (transferMoney t10 t11 bank (Some refA) (Some refB) (JNum (Finite 25))) refA) =
     Finite 275 \<and>
   balance (snd (transferMoney t10 t11 bank (Some refA) (Some refB) (JNum (Finite 25))) refB) =
     Finite 125 \<and>
   txns (snd (transferMoney t10 t11 bank (Some refA) (Some refB) (JNum (Finite 25))) refA) =
     [transferOutRecord t10 (Finite 25) (Finite 275) (Some ''1000000005'')] \<and>
   txns (snd (transferMoney t10 t11 bank (Some refA) (Some refB) (JNum (Finite 25))) refB) =
     [transferInRecord t11 (Finite 25) (Finite 125) (Some ''1000000004'')] \<and>
   (\<exists>e. fst (transferMoney t10 t11 bank (Some refA) (Some refB) (JNum (Finite 1000))) = Inl e) \<and>
   snd (transferMoney t10 t11 bank (Some refA) (Some refB) (JNum (Finite 1000))) = bank \<and>
   (\<exists>e. fst (transferMoney t10 t11 bank (Some refA) (Some refB) (JNum NaN)) = Inl e) \<and>
   (\<exists>s. fst (transferMoney t10 t11 unevenBank (Some refA) (Some refB) (JNum (Finite 1))) = Inr s) \<and>
   balance (snd (transferMoney t10 t11 unevenBank (Some refA) (Some refB) (JNum (Finite 1))) refA) =
     Finite 49 \<and>
   balance (snd (transferMoney t10 t11 unevenBank (Some refA) (Some refB) (JNum (Finite 1))) refB) =
     Finite (10 ^ 17)"
proof -
  let ?r = "transferMoney t10 t11 bank (Some refA) (Some refB) (JNum (Finite 25))"
  let ?q = "transferMoney t10 t11 bank (Some refA) (Some refB) (JNum (Finite 1000))"
  let ?n = "transferMoney t10 t11 bank (Some refA) (Some refB) (JNum NaN)"
  let ?u = "transferMoney t10 t11 unevenBank (Some refA) (Some refB) (JNum (Finite 1))"
  note good = transferMoney_validates_first
    [of t10 t11 bank "Some refA" "Some refB" "JNum (Finite 25)", unfolded Let_def]
  note bad = transferMoney_validates_first
    [of t10 t11 bank "Some refA" "Some refB" "JNum (Finite 1000)", unfolded Let_def]
  note nan = transferMoney_validates_first
    [of t10 t11 bank "Some refA" "Some refB" "JNum NaN", unfolded Let_def]
  note uneven = transferMoney_validates_first
    [of t10 t11 unevenBank "Some refA" "Some refB" "JNum (Finite 1)", unfolded Let_def]
  have "\<not> (\<exists>e. fst ?r = Inl e)"
    unfolding good [THEN conjunct1]
    by (simp add: hasIdentifier_def positiveNumber_def exceedsBalance_def)
  then have ok: "\<exists>s. fst ?r = Inr s"
    by (cases "fst ?r") auto
  have g: "balance (snd ?r refA) = num_sub (balance (bank refA)) (Finite 25) \<and>
        txns (snd ?r refA) = txns (bank refA) @
          [transferOutRecord t10 (Finite 25) (num_sub (balance (bank refA)) (Finite 25))
             (accountNumber (bank refB))] \<and>
        balance (snd ?r refB) = num_add (balance (bank refB)) (Finite 25) \<and>
        txns (snd ?r refB) = txns (bank refB) @
          [transferInRecord t11 (Finite 25) (num_add (balance (bank refB)) (Finite 25))
             (accountNumber (bank refA))]"
    using good [THEN conjunct2, THEN conjunct2, rule_format, of refA refB "Finite 25"] ok
    by simp
  have "\<exists>e. fst ?q = Inl e"
    unfolding bad [THEN conjunct1] by (simp add: exceedsBalance_def)
  then have e: "(\<exists>e. fst ?q = Inl e) \<and> snd ?q = bank"
    using bad [THEN conjunct2, THEN conjunct1] by blast
  have n: "\<exists>e. fst ?n = Inl e"
    unfolding nan [THEN conjunct1] by (simp add: positiveNumber_def)
  have "\<not> (\<exists>e. fst ?u = Inl e)"
    unfolding uneven [THEN conjunct1]
    by (simp add: hasIdentifier_def positiveNumber_def exceedsBalance_def)
  then have oku: "\<exists>s. fst ?u = Inr s"
    by (cases "fst ?u") auto
  have u: "balance (snd ?u refA) = num_sub (balance (unevenBank refA)) (Finite 1) \<and>
        balance (snd ?u refB) = num_add (balance (unevenBank refB)) (Finite 1)"
    using uneven [THEN conjunct2, THEN conjunct2, rule_format, of refA refB "Finite 1"] oku
    by simp
  show ?thesis using ok g e n oku u absorbed_credit by simp
qed

text \<open>
  The doubles \<open>161.33\<close> and \<open>33.33\<close>: their difference has the numerator \<open>2^53 + 1\<close> over a
  power of two, which is one bit too many for a double.
\<close>

lemma cents_transfer:
  "literal (16133 / 100) = Finite (5676294749091267 / 35184372088832)"
  "literal (3333 / 100) = Finite (2345390243441541 / 70368744177664)"
  "(5676294749091267 / 35184372088832 - 2345390243441541 / 70368744177664 :: rat) =
     (2 ^ 53 + 1) / 70368744177664"
  "isDouble (5676294749091267 / 35184372088832)"
  "isDouble ((2 ^ 53 + 1) / 70368744177664) = False"
  by code_simp+

text \<open>
  C9, amended. A transfer from an account to itself succeeds when the account has a
  number and the amount is positive and does not exceed the balance. A \<open>TRANSFER_OUT\<close> and
  a \<open>TRANSFER_IN\<close> record are appended to the one transaction list, each naming the
  account's own number as the counterparty. The balance is debited and then credited as
  the engine computes it, \<open>(balance - amount) + amount\<close> with each step rounded to a
  double: it is left as it was whenever \<open>balance - amount\<close> is itself a double, as it is
  for whole numbers up to \<open>2^53\<close>.
\<close>

theorem transferMoney_self:
  assumes "truthy (accountNumber (h a))" and "num_gt amt (Finite 0)"
    and "\<not> num_gt amt (balance (h a))"
  shows "let r = transferMoney now1 now2 h (Some a) (Some a) (JNum amt);
             debited = num_sub (balance (h a)) amt
         in fst r = Inr (summary_of (snd r a), summary_of (snd r a)) \<and>
            balance (snd r a) = num_add debited amt \<and>
            txns (snd r a) = txns (h a) @
              [transferOutRecord now1 amt debited (accountNumber (h a)),
               transferInRecord now2 amt (num_add debited amt) (accountNumber (h a))] \<and>
            to (transferOutRecord now1 amt debited (accountNumber (h a))) =
              accountNumber (h a) \<and>
            from' (transferInRecord now2 amt (num_add debited amt) (accountNumber (h a))) =
              accountNumber (h a) \<and>
            (\<forall>b x. balance (h a) = Finite b \<and> amt = Finite x \<and> isDouble b \<and>
                   isDouble (b - x) \<longrightarrow> balance (snd r a) = balance (h a))"
proof -
  have cancel: "num_add (num_sub (Finite b) (Finite x)) (Finite x) = Finite b"
    if "isDouble b" "isDouble (b - x)" for b x
    using that by (simp add: roundDouble_isDouble)
  show ?thesis
    unfolding transferMoney_success [of h a a amt, OF assms(1) assms(1) assms(2) assms(3)]
    using cancel
    by (auto simp: Let_def txns_def transferOutRecord_def transferInRecord_def)
qed

theorem transferMoney_self_witness:
  "truthy (accountNumber (bank refA)) \<and> num_gt (Finite 25) (Finite 0) \<and>
   \<not> num_gt (Finite 25) (balance (bank refA)) \<and>
   balance (bank refA) = Finite 300 \<and> isDouble 300 \<and> isDouble (300 - 25) \<and>
   (\<exists>s. fst (transferMoney t10 t11 bank (Some refA) (Some refA) (JNum (Finite 25))) = Inr s) \<and>
   balance (snd (transferMoney t10 t11 bank (Some refA) (Some refA) (JNum (Finite 25))) refA) =
     Finite 300 \<and>
   txns (snd (transferMoney t10 t11 bank (Some refA) (Some refA) (JNum (Finite 25))) refA) =
     [transferOutRecord t10 (Finite 25) (Finite 275) (Some ''1000000004''),
      transferInRecord t11 (Finite 25) (Finite 300) (Some ''1000000004'')]"
proof -
  have h: "truthy (accountNumber (bank refA))" "num_gt (Finite 25) (Finite 0)"
    "\<not> num_gt (Finite 25) (balance (bank refA))"
    by simp_all
  have d: "isDouble 300" "isDouble (300 - 25)"
    using isDouble_of_int [of 300] isDouble_of_int [of 275] by simp_all
  note w = transferMoney_self [of bank refA "Finite 25" t10 t11, OF h, unfolded Let_def]
  have "\<exists>s. fst (transferMoney t10 t11 bank (Some refA) (Some refA) (JNum (Finite 25))) = Inr s"
    using w by blast
  moreover have "balance (snd (transferMoney t10 t11 bank (Some refA) (Some refA)
                    (JNum (Finite 25))) refA) = balance (bank refA)"
    using w [THEN conjunct2, THEN conjunct2, THEN conjunct2, THEN conjunct2, THEN conjunct2,
        rule_format, of 300 25] d
    by simp
  ultimately show ?thesis using h d w by simp
qed

text \<open>
  C9 as stated fails for amounts with cents. On a balance of \<open>161.33\<close>, a transfer of
  \<open>33.33\<close> to the same account succeeds and leaves \<open>161.32999999999998\<close>: the debit is
  rounded, and the credit does not bring the balance back.
\<close>

theorem transferMoney_self_counterexample:
  "truthy (accountNumber (centsBank refA)) \<and>
   balance (centsBank refA) = literal (16133 / 100) \<and>
   num_gt (literal (3333 / 100)) (Finite 0) \<and>
   \<not> num_gt (literal (3333 / 100)) (balance (centsBank refA)) \<and>
   fst (transferMoney t10 t11 centsBank (Some refA) (Some refA) (JNum (literal (3333 / 100)))) =
     Inr (summary_of (snd (transferMoney t10 t11 centsBank (Some refA) (Some refA)
                             (JNum (literal (3333 / 100)))) refA),
          summary_of (snd (transferMoney t10 t11 centsBank (Some refA) (Some refA)
                             (JNum (literal (3333 / 100)))) refA)) \<and>
   balance (snd (transferMoney t10 t11 centsBank (Some refA) (Some refA)
                   (JNum (literal (3333 / 100)))) refA) = literal (16132999999999998 / 10 ^ 14) \<and>
   literal (16132999999999998 / 10 ^ 14) \<noteq> literal (16133 / 100)"
  by code_simp

lemma ledgerInvariant_opened: "ledgerInvariant b (opened n b)"
  by (simp add: ledgerInvariant_def)

lemma addDeposit_ledger:
  "ledgerInvariant init a \<Longrightarrow> ledgerInvariant init (snd (addDeposit now a v))"
  by (cases "requirePositiveNumber v ''Deposit amount''")
     (auto simp: ledgerInvariant_def addDeposit_def Let_def effect_def)

lemma withdrawal_ledger:
  "ledgerInvariant init a \<Longrightarrow> ledgerInvariant init (snd (withdrawal now a v))"
  by (cases "requirePositiveNumber v ''Withdrawal amount''")
     (auto simp: ledgerInvariant_def withdrawal_def Let_def effect_def num_sub_def)

lemma calculateSaving_browser_ledger:
  "ledgerInvariant init a \<Longrightarrow> ledgerInvariant init (snd (calculateSaving_browser now a))"
  by (auto simp: ledgerInvariant_def calculateSaving_browser_def Let_def effect_def)

lemma transferMoney_ledger:
  assumes "\<forall>p. ledgerInvariant (init p) (h p)"
  shows "ledgerInvariant (init p) (snd (transferMoney now1 now2 h src dst v) p)"
proof (cases "\<exists>e. fst (transferMoney now1 now2 h src dst v) = Inl e")
  case True
  then show ?thesis using assms transferMoney_error_unchanged by fastforce
next
  case False
  then obtain f t amt where st: "src = Some f" "dst = Some t" "v = JNum amt"
    and ok: "truthy (accountNumber (h f))" "truthy (accountNumber (h t))"
      "num_gt amt (Finite 0)" "\<not> num_gt amt (balance (h f))"
    unfolding transferMoney_raises
    by (cases src; cases dst; cases v)
       (auto simp: hasIdentifier_def positiveNumber_def exceedsBalance_def)
  have f: "ledgerInvariant (init f) (h f)" and t: "ledgerInvariant (init t) (h t)"
    and p: "ledgerInvariant (init p) (h p)"
    using assms by blast+
  show ?thesis
    unfolding st transferMoney_success [OF ok]
    using f t p
    by (auto simp: Let_def ledgerInvariant_def txns_def num_sub_def)
qed

lemma perform_browser_ledger:
  assumes "\<forall>p. ledgerInvariant (init p) (h p)"
  shows "\<forall>p. ledgerInvariant (init p) (perform_browser h x p)"
  using assms
  by (cases x)
     (simp_all add: addDeposit_ledger withdrawal_ledger calculateSaving_browser_ledger
        transferMoney_ledger)

text \<open>
  The ledger invariant for the engine with the browser bundle's interest accrual:
  it holds of every account after every finite run of deposits, withdrawals, transfers
  and accruals, valid or rejected.
\<close>

lemma ledger_run_browser:
  assumes "\<forall>p. ledgerInvariant (init p) (h p)"
  shows "\<forall>p. ledgerInvariant (init p) (foldl perform_browser h ops p)"
  using assms
proof (induction ops arbitrary: h)
  case Nil
  then show ?case by simp
next
  case (Cons x ops)
  have "\<forall>p. ledgerInvariant (init p) (perform_browser h x p)"
    by (rule perform_browser_ledger [OF Cons.prems])
  then show ?case using Cons.IH by simp
qed

section \<open>Account status and the daily limit\<close>

lemma status_of_ensureStatus [simp]: "status_of (ensureStatus a) = status_of a"
  by (simp add: status_of_def ensureStatus_def truthy_def split: option.splits)

lemma history_ensureStatus [simp]: "history (ensureStatus a) = history a"
  by (simp add: history_def ensureStatus_def)

lemma txns_ensureStatus [simp]: "txns (ensureStatus a) = txns a"
  by (simp add: txns_def ensureStatus_def)

lemma balance_ensureStatus [simp]: "balance (ensureStatus a) = balance a"
  by (simp add: ensureStatus_def)

lemma status_of_ensureStatusHistory [simp]: "status_of (ensureStatusHistory a) = status_of a"
  by (simp add: status_of_def ensureStatusHistory_def split: option.splits)

lemma history_ensureStatusHistory [simp]: "history (ensureStatusHistory a) = history a"
  by (simp add: history_def ensureStatusHistory_def split: option.splits)

lemma status_of_ensureTransactions [simp]: "status_of (ensureTransactions a) = status_of a"
  by (simp add: status_of_def ensureTransactions_def split: option.splits)

lemma history_ensureTransactions [simp]: "history (ensureTransactions a) = history a"
  by (simp add: history_def ensureTransactions_def split: option.splits)

lemma status_history_update [simp]:
  "status_of (a\<lparr>status := Some s, statusHistory := Some hs\<rparr>) = (if s = [] then ''ACTIVE'' else s)"
  "history (a\<lparr>status := Some s, statusHistory := Some hs\<rparr>) = hs"
  by (simp_all add: status_of_def history_def)

lemma accountNumber_ensureStatus [simp]:
  "accountNumber (ensureStatusHistory (ensureStatus a)) = accountNumber a"
  by (simp add: ensureStatusHistory_def ensureStatus_def split: option.splits)

lemma normalizesTo_require:
  assumes "normalizesTo toUpperCase action target"
  obtains s where "action = Some s"
    and "requireNonEmptyString action ''Action'' = Inr (trim s)"
    and "toUpperCase (trim s) = target"
proof -
  from assms obtain s where s: "action = Some s" "trim s \<noteq> []" "toUpperCase (trim s) = target"
    by (auto simp: normalizesTo_def split: option.splits)
  then have "requireNonEmptyString action ''Action'' = Inr (trim s)"
    by (simp add: requireNonEmptyString_def)
  with s show ?thesis using that by blast
qed

lemma freeze_without_manager:
  assumes "normalizesTo toUpperCase action ''FREEZE''" and "\<not> managerSupplied managerId"
  shows "\<exists>a'. updateAccountStatus toUpperCase now (Some a) action managerId =
           (Inl (Error ''Manager approval is required to freeze an account.''), Some a') \<and>
           status_of a' = status_of a \<and> history a' = history a"
proof -
  obtain s where s: "requireNonEmptyString action ''Action'' = Inr (trim s)"
    "toUpperCase (trim s) = ''FREEZE''"
    using normalizesTo_require [OF assms(1)] by auto
  show ?thesis
    using assms(2) s
    by (simp add: updateAccountStatus_def managerSupplied_def Let_def split: option.splits)
qed

lemma freeze_with_manager:
  assumes "normalizesTo toUpperCase action ''FREEZE''" and "managerSupplied (Some m)"
    and "status_of a \<noteq> ''FROZEN''"
  shows "\<exists>a'. updateAccountStatus toUpperCase now (Some a) action (Some m) =
           (Inr \<lparr>ss_accountNumber = accountNumber a, ss_status = ''FROZEN'',
                 ss_statusHistory = history a @ [freezeEntry (trim m) now]\<rparr>, Some a') \<and>
           status_of a' = ''FROZEN'' \<and> history a' = history a @ [freezeEntry (trim m) now]"
proof -
  obtain s where s: "requireNonEmptyString action ''Action'' = Inr (trim s)"
    "toUpperCase (trim s) = ''FREEZE''"
    using normalizesTo_require [OF assms(1)] by auto
  show ?thesis
    using assms(2,3) s
    by (simp add: updateAccountStatus_def managerSupplied_def Let_def freezeEntry_def)
qed

lemma status_noop:
  assumes "(normalizesTo toUpperCase action ''FREEZE'' \<and> managerSupplied managerId \<and>
            status_of a = ''FROZEN'') \<or>
           (normalizesTo toUpperCase action ''UNFREEZE'' \<and> status_of a = ''ACTIVE'')"
  shows "\<exists>a'. updateAccountStatus toUpperCase now (Some a) action managerId =
           (Inr \<lparr>ss_accountNumber = accountNumber a, ss_status = status_of a,
                 ss_statusHistory = history a\<rparr>, Some a') \<and>
           status_of a' = status_of a \<and> history a' = history a"
  using assms
proof
  assume h: "normalizesTo toUpperCase action ''FREEZE'' \<and> managerSupplied managerId \<and>
             status_of a = ''FROZEN''"
  then obtain s where s: "requireNonEmptyString action ''Action'' = Inr (trim s)"
    "toUpperCase (trim s) = ''FREEZE''"
    using normalizesTo_require [of toUpperCase action "''FREEZE''"] by auto
  show ?thesis
    using h s
    by (auto simp: updateAccountStatus_def managerSupplied_def Let_def split: option.splits)
next
  assume h: "normalizesTo toUpperCase action ''UNFREEZE'' \<and> status_of a = ''ACTIVE''"
  then obtain s where s: "requireNonEmptyString action ''Action'' = Inr (trim s)"
    "toUpperCase (trim s) = ''UNFREEZE''"
    using normalizesTo_require [of toUpperCase action "''UNFREEZE''"] by auto
  show ?thesis
    using h s by (simp add: updateAccountStatus_def Let_def)
qed

text \<open>
  C7. Whatever \<open>toUpperCase\<close> does outside ASCII, with an action that normalises to
  \<open>FREEZE\<close>: without a manager identifier that is non-empty after trimming,
  \<open>updateAccountStatus\<close> raises "Manager approval is required to freeze an account." and
  the status and the history read as before; with one, on an account that is not
  \<open>FROZEN\<close>, the status becomes \<open>FROZEN\<close> and exactly one entry is appended, naming the
  (trimmed) manager identifier. A request for the state the account is already in
  (\<open>FREEZE\<close> with a manager identifier on \<open>FROZEN\<close>, \<open>UNFREEZE\<close> on \<open>ACTIVE\<close>) returns and
  appends nothing. Status and history are read with their defaults (\<open>ACTIVE\<close>, no
  entries), which the call writes into the object when the properties are absent.
\<close>

theorem updateAccountStatus_freeze:
  "(normalizesTo toUpperCase action ''FREEZE'' \<and> \<not> managerSupplied managerId \<longrightarrow>
      (\<exists>a'. updateAccountStatus toUpperCase now (Some a) action managerId =
         (Inl (Error ''Manager approval is required to freeze an account.''), Some a') \<and>
         status_of a' = status_of a \<and> history a' = history a)) \<and>
   (\<forall>m. normalizesTo toUpperCase action ''FREEZE'' \<and> managerId = Some m \<and>
        managerSupplied managerId \<and> status_of a \<noteq> ''FROZEN'' \<longrightarrow>
      (\<exists>a'. updateAccountStatus toUpperCase now (Some a) action managerId =
         (Inr \<lparr>ss_accountNumber = accountNumber a, ss_status = ''FROZEN'',
               ss_statusHistory = history a @ [freezeEntry (trim m) now]\<rparr>, Some a') \<and>
         status_of a' = ''FROZEN'' \<and>
         history a' = history a @ [freezeEntry (trim m) now])) \<and>
   ((normalizesTo toUpperCase action ''FREEZE'' \<and> managerSupplied managerId \<and>
     status_of a = ''FROZEN'') \<or>
    (normalizesTo toUpperCase action ''UNFREEZE'' \<and> status_of a = ''ACTIVE'') \<longrightarrow>
      (\<exists>a'. updateAccountStatus toUpperCase now (Some a) action managerId =
         (Inr \<lparr>ss_accountNumber = accountNumber a, ss_status = status_of a,
               ss_statusHistory = history a\<rparr>, Some a') \<and>
         status_of a' = status_of a \<and> history a' = history a))"
proof (intro conjI impI allI)
  assume "normalizesTo toUpperCase action ''FREEZE'' \<and> \<not> managerSupplied managerId"
  then show "\<exists>a'. updateAccountStatus toUpperCase now (Some a) action managerId =
         (Inl (Error ''Manager approval is required to freeze an account.''), Some a') \<and>
         status_of a' = status_of a \<and> history a' = history a"
    using freeze_without_manager [of toUpperCase action managerId now a] by simp
next
  fix m
  assume h: "normalizesTo toUpperCase action ''FREEZE'' \<and> managerId = Some m \<and>
             managerSupplied managerId \<and> status_of a \<noteq> ''FROZEN''"
  then have "\<exists>a'. updateAccountStatus toUpperCase now (Some a) action (Some m) =
         (Inr \<lparr>ss_accountNumber = accountNumber a, ss_status = ''FROZEN'',
               ss_statusHistory = history a @ [freezeEntry (trim m) now]\<rparr>, Some a') \<and>
         status_of a' = ''FROZEN'' \<and>
         history a' = history a @ [freezeEntry (trim m) now]"
    using freeze_with_manager [of toUpperCase action m a now] by auto
  then show "\<exists>a'. updateAccountStatus toUpperCase now (Some a) action managerId =
         (Inr \<lparr>ss_accountNumber = accountNumber a, ss_status = ''FROZEN'',
               ss_statusHistory = history a @ [freezeEntry (trim m) now]\<rparr>, Some a') \<and>
         status_of a' = ''FROZEN'' \<and>
         history a' = history a @ [freezeEntry (trim m) now]"
    using h by simp
next
  assume "(normalizesTo toUpperCase action ''FREEZE'' \<and> managerSupplied managerId \<and>
           status_of a = ''FROZEN'') \<or>
          (normalizesTo toUpperCase action ''UNFREEZE'' \<and> status_of a = ''ACTIVE'')"
  then show "\<exists>a'. updateAccountStatus toUpperCase now (Some a) action managerId =
         (Inr \<lparr>ss_accountNumber = accountNumber a, ss_status = status_of a,
               ss_statusHistory = history a\<rparr>, Some a') \<and>
         status_of a' = status_of a \<and> history a' = history a"
    by (rule status_noop)
qed

lemma trim_examples [simp]:
  "trim '' freeze '' = ''freeze''" "trim ''MGR-001'' = ''MGR-001''" "trim ''  '' = []"
  "trim ''unfreeze'' = ''unfreeze''" "trim ''FREEZE'' = ''FREEZE''"
  "trim ''MGR-002'' = ''MGR-002''"
  "trim nbsp = []" "trim (nbsp @ ''freeze'') = ''freeze''"
  by code_simp+

lemma asciiUpperCase_examples [simp]:
  "asciiUpperCase ''freeze'' = ''FREEZE''" "asciiUpperCase ''unfreeze'' = ''UNFREEZE''"
  "asciiUpperCase ''FREEZE'' = ''FREEZE''"
  by (simp_all add: asciiUpperCase_def asciiUpperChar_def)

theorem updateAccountStatus_freeze_witness:
  "normalizesTo asciiUpperCase (Some '' freeze '') ''FREEZE'' \<and>
   \<not> managerSupplied (Some ''  '') \<and>
   fst (updateAccountStatus asciiUpperCase t10 (Some johnDoe) (Some '' freeze '') (Some ''  '')) =
     Inl (Error ''Manager approval is required to freeze an account.'') \<and>
   \<not> managerSupplied (Some nbsp) \<and>
   fst (updateAccountStatus asciiUpperCase t10 (Some johnDoe) (Some '' freeze '') (Some nbsp)) =
     Inl (Error ''Manager approval is required to freeze an account.'') \<and>
   managerSupplied (Some ''MGR-001'') \<and> status_of johnDoe \<noteq> ''FROZEN'' \<and>
   fst (updateAccountStatus asciiUpperCase t10 (Some johnDoe) (Some '' freeze '')
          (Some ''MGR-001'')) =
     Inr \<lparr>ss_accountNumber = Some ''1000000001'', ss_status = ''FROZEN'',
          ss_statusHistory = [freezeEntry ''MGR-001'' t10]\<rparr> \<and>
   snd (updateAccountStatus asciiUpperCase t10 (Some johnDoe) (Some '' freeze '')
          (Some ''MGR-001'')) = Some frozenJohn \<and>
   normalizesTo asciiUpperCase (Some (nbsp @ ''freeze'')) ''FREEZE'' \<and>
   snd (updateAccountStatus asciiUpperCase t10 (Some johnDoe) (Some (nbsp @ ''freeze''))
          (Some ''MGR-001'')) = Some frozenJohn \<and>
   status_of frozenJohn = ''FROZEN'' \<and> managerSupplied (Some ''MGR-002'') \<and>
   (\<exists>a'. snd (updateAccountStatus asciiUpperCase t11 (Some frozenJohn) (Some ''FREEZE'')
                (Some ''MGR-002'')) = Some a' \<and> history a' = [freezeEntry ''MGR-001'' t10]) \<and>
   normalizesTo asciiUpperCase (Some ''unfreeze'') ''UNFREEZE'' \<and>
   status_of johnDoe = ''ACTIVE'' \<and>
   (\<exists>a'. snd (updateAccountStatus asciiUpperCase t11 (Some johnDoe) (Some ''unfreeze'') None) =
            Some a' \<and> history a' = [])"
proof -
  have n: "normalizesTo asciiUpperCase (Some '' freeze '') ''FREEZE''"
    "normalizesTo asciiUpperCase (Some ''FREEZE'') ''FREEZE''"
    "normalizesTo asciiUpperCase (Some ''unfreeze'') ''UNFREEZE''"
    "normalizesTo asciiUpperCase (Some (nbsp @ ''freeze'')) ''FREEZE''"
    by (simp_all add: normalizesTo_def)
  have m: "\<not> managerSupplied (Some ''  '')" "managerSupplied (Some ''MGR-001'')"
    "\<not> managerSupplied (Some nbsp)" "managerSupplied (Some ''MGR-002'')"
    by (simp_all add: managerSupplied_def)
  have s: "status_of johnDoe = ''ACTIVE''" "history johnDoe = []"
    "status_of frozenJohn = ''FROZEN''" "history frozenJohn = [freezeEntry ''MGR-001'' t10]"
    "accountNumber johnDoe = Some ''1000000001''"
    by (simp_all add: status_of_def history_def johnDoe_def opened_def frozenJohn_def)
  have e: "snd (updateAccountStatus asciiUpperCase t10 (Some johnDoe) (Some '' freeze '')
             (Some ''MGR-001'')) = Some frozenJohn"
    "snd (updateAccountStatus asciiUpperCase t10 (Some johnDoe) (Some (nbsp @ ''freeze''))
             (Some ''MGR-001'')) = Some frozenJohn"
    by (simp_all add: updateAccountStatus_def requireNonEmptyString_def Let_def johnDoe_def
        opened_def frozenJohn_def freezeEntry_def ensureStatus_def ensureStatusHistory_def
        truthy_def status_of_def history_def)
  note a = updateAccountStatus_freeze
    [of asciiUpperCase "Some '' freeze ''" "Some ''  ''" t10 johnDoe]
  note a2 = updateAccountStatus_freeze
    [of asciiUpperCase "Some '' freeze ''" "Some nbsp" t10 johnDoe]
  note b = updateAccountStatus_freeze
    [of asciiUpperCase "Some '' freeze ''" "Some ''MGR-001''" t10 johnDoe]
  note c = updateAccountStatus_freeze
    [of asciiUpperCase "Some ''FREEZE''" "Some ''MGR-002''" t11 frozenJohn]
  note d = updateAccountStatus_freeze
    [of asciiUpperCase "Some ''unfreeze''" None t11 johnDoe]
  have a': "fst (updateAccountStatus asciiUpperCase t10 (Some johnDoe) (Some '' freeze '')
              (Some ''  '')) =
     Inl (Error ''Manager approval is required to freeze an account.'')"
    using a [THEN conjunct1] n m by auto
  have a2': "fst (updateAccountStatus asciiUpperCase t10 (Some johnDoe) (Some '' freeze '')
              (Some nbsp)) =
     Inl (Error ''Manager approval is required to freeze an account.'')"
    using a2 [THEN conjunct1] n m by auto
  have b': "fst (updateAccountStatus asciiUpperCase t10 (Some johnDoe) (Some '' freeze '')
              (Some ''MGR-001'')) =
     Inr \<lparr>ss_accountNumber = Some ''1000000001'', ss_status = ''FROZEN'',
          ss_statusHistory = [freezeEntry ''MGR-001'' t10]\<rparr>"
    using b [THEN conjunct2, THEN conjunct1, rule_format, of "''MGR-001''"] n m s by auto
  have c': "\<exists>a'. snd (updateAccountStatus asciiUpperCase t11 (Some frozenJohn) (Some ''FREEZE'')
                      (Some ''MGR-002'')) = Some a' \<and> history a' = [freezeEntry ''MGR-001'' t10]"
    using c [THEN conjunct2, THEN conjunct2] n m s by auto
  have d': "\<exists>a'. snd (updateAccountStatus asciiUpperCase t11 (Some johnDoe) (Some ''unfreeze'')
                      None) = Some a' \<and> history a' = []"
    using d [THEN conjunct2, THEN conjunct2] n s by auto
  have nf: "status_of johnDoe \<noteq> ''FROZEN''" using s by simp
  show ?thesis using n m s nf e a' a2' b' c' d' by blast
qed









lemma twiceWithdrawn_eq:
  "twiceWithdrawn =
     (opened ''1000000007'' (Finite 600))\<lparr>transactions :=
        Some [withdrawalRecord t10 (Finite 200) (Finite 800),
              withdrawalRecord t11 (Finite 200) (Finite 600)],
        status := Some ''ACTIVE''\<rparr>"
  by code_simp




section \<open>Suspicious activity\<close>

declare rapidInner.simps [simp del] rapidOuter.simps [simp del]

lemma set_js_insort: "set (js_insort cmp x ys) = insert x (set ys)"
  by (induction ys) auto

lemma set_js_sort: "set (js_sort cmp xs) = set xs"
  by (induction xs) (simp_all add: js_sort_def set_js_insort)

lemma smallWithdrawals_parsed:
  assumes "smallDatesParse parse a" and "x \<in> set (smallWithdrawals parse (txns a))"
  shows "snd x \<noteq> None"
  using assms
  by (auto simp: smallWithdrawals_def set_js_sort smallDatesParse_def list_all_iff)

lemma rapidInner_count:
  assumes "\<forall>x\<in>set small. snd x \<noteq> None" and "i < j"
    and "rapidInner small i j = Some (RapidWithdrawals c m)"
  shows "c = j - i + 1"
proof (cases "j < length small")
  case False
  then show ?thesis using assms(3) by (subst (asm) rapidInner.simps) simp
next
  case True
  then have "small ! j \<in> set small" "small ! i \<in> set small"
    using assms(2) by simp_all
  then obtain tj ti where "snd (small ! j) = Some tj" "snd (small ! i) = Some ti"
    using assms(1) by fastforce
  then have ms: "minus_ms (snd (small ! j)) (snd (small ! i)) = Some (tj - ti)"
    by (simp add: minus_ms_def)
  show ?thesis
    using assms(3) True ms
    by (subst (asm) rapidInner.simps) (simp split: if_splits)
qed

lemma rapidOuter_count:
  assumes "\<forall>x\<in>set small. snd x \<noteq> None"
    and "rapidOuter small i = Some (RapidWithdrawals c m)"
  shows "c = 3"
  using assms
proof (induction small i rule: rapidOuter.induct)
  case (1 small i)
  note parsed = "1.prems"(1) and found = "1.prems"(2)
  show ?case
  proof (cases "i < length small")
    case False
    then show ?thesis using found by (subst (asm) rapidOuter.simps) simp
  next
    case True
    show ?thesis
    proof (cases "rapidInner small i (i + 2)")
      case None
      then have "rapidOuter small (i + 1) = Some (RapidWithdrawals c m)"
        using found True by (subst (asm) rapidOuter.simps) simp
      then show ?thesis using "1.IH" [OF True None parsed] by simp
    next
      case (Some al)
      then have "al = RapidWithdrawals c m"
        using found True by (subst (asm) rapidOuter.simps) simp
      with Some have r: "rapidInner small i (i + 2) = Some (RapidWithdrawals c m)"
        by simp
      have "c = (i + 2) - i + 1"
        by (rule rapidInner_count [OF parsed _ r]) simp
      then show ?thesis by simp
    qed
  qed
qed

text \<open>
  C10, amended. When the date of every \<open>WITHDRAWAL\<close> record of at most 500 parses (as
  the date of every record the engine writes does), a rapid-withdrawal alert of
  \<open>checkForSuspiciousActivity\<close> reports the count 3: for a start index \<open>i\<close> the scan looks at
  index \<open>i + 2\<close> and stops there, within the window or beyond it, so a cluster of four
  is reported as 3 as well.
\<close>

theorem rapid_alert_count:
  assumes "smallDatesParse parse a"
    and "RapidWithdrawals c m \<in> set (alerts (fst (checkForSuspiciousActivity parse a)))"
  shows "c = 3"
proof -
  let ?small = "smallWithdrawals parse (txns a)"
  have p: "\<forall>x\<in>set ?small. snd x \<noteq> None"
    using smallWithdrawals_parsed [OF assms(1)] by blast
  have "RapidWithdrawals c m \<notin> set (highValueAlerts (txns a))"
    by (auto simp: highValueAlerts_def)
  then have "rapidOuter ?small 0 = Some (RapidWithdrawals c m)"
    using assms(2)
    by (auto simp: checkForSuspiciousActivity_def Let_def split: option.splits)
  then show ?thesis by (rule rapidOuter_count [OF p])
qed

lemma threeQuick_alerts:
  "alerts (fst (checkForSuspiciousActivity clock threeQuick)) = [RapidWithdrawals 3 4]"
  by code_simp

lemma fourQuick_alerts:
  "alerts (fst (checkForSuspiciousActivity clock fourQuick)) = [RapidWithdrawals 3 2]"
  by code_simp

text \<open>
  C10 as stated fails when such a date does not parse: the span to it is \<open>NaN\<close>, neither
  comparison holds, and the scan goes on to the next index. With records at 10:00,
  10:01, an unparsable date and 10:04 the alert reports 4 transactions.
\<close>

theorem rapid_alert_four_counterexample:
  "alerts (fst (checkForSuspiciousActivity clock garbled)) = [RapidWithdrawals 4 4]"
  by code_simp

theorem rapid_alert_count_witness:
  "smallDatesParse clock fourQuick \<and>
   alerts (fst (checkForSuspiciousActivity clock fourQuick)) = [RapidWithdrawals 3 2] \<and>
   smallDatesParse clock threeQuick \<and>
   alerts (fst (checkForSuspiciousActivity clock threeQuick)) = [RapidWithdrawals 3 4]"
proof -
  have p: "smallDatesParse clock fourQuick" "smallDatesParse clock threeQuick"
    by code_simp+
  show ?thesis
    using p fourQuick_alerts threeQuick_alerts
      rapid_alert_count [OF p(1), of 3 2] rapid_alert_count [OF p(2), of 3 4]
    by simp
qed

section \<open>Retrieval by date range and type\<close>

lemma mset_js_insort: "mset (js_insort cmp x ys) = add_mset x (mset ys)"
  by (induction ys) auto

lemma mset_js_sort: "mset (js_sort cmp xs) = mset xs"
  by (induction xs) (simp_all add: js_sort_def mset_js_insort)

lemma sortCompare_newestFirst:
  assumes "parse (date x) \<noteq> None" and "parse (date y) \<noteq> None"
  shows "sortCompare (newestFirst parse) x y = timeOf parse y - timeOf parse x"
  using assms by (auto simp: sortCompare_def newestFirst_def minus_ms_def timeOf_def)

lemma newestFirst_js_insort:
  assumes "parse (date x) \<noteq> None" and "\<forall>y\<in>set ys. parse (date y) \<noteq> None"
    and "newestFirstOrder parse ys"
  shows "newestFirstOrder parse (js_insort (newestFirst parse) x ys)"
  using assms(2,3)
proof (induction ys)
  case Nil
  then show ?case by (simp add: newestFirstOrder_def)
next
  case (Cons y ys)
  have c: "sortCompare (newestFirst parse) x y = timeOf parse y - timeOf parse x"
    using sortCompare_newestFirst [of parse x y] assms(1) Cons.prems(1) by simp
  show ?case
  proof (cases "timeOf parse y \<le> timeOf parse x")
    case True
    then show ?thesis
      using c Cons.prems(2) by (fastforce simp: newestFirstOrder_def)
  next
    case False
    have "newestFirstOrder parse (js_insort (newestFirst parse) x ys)"
      using Cons by (simp add: newestFirstOrder_def)
    then show ?thesis
      using c False Cons.prems(2)
      by (auto simp: newestFirstOrder_def set_js_insort)
  qed
qed

lemma newestFirst_js_sort:
  assumes "\<forall>y\<in>set xs. parse (date y) \<noteq> None"
  shows "newestFirstOrder parse (js_sort (newestFirst parse) xs)"
  using assms
proof (induction xs)
  case Nil
  then show ?case by (simp add: js_sort_def newestFirstOrder_def)
next
  case (Cons x xs)
  have "newestFirstOrder parse (js_sort (newestFirst parse) xs)"
    using Cons by simp
  then have "newestFirstOrder parse
               (js_insort (newestFirst parse) x (js_sort (newestFirst parse) xs))"
    using Cons.prems by (intro newestFirst_js_insort) (simp_all add: set_js_sort)
  then show ?case by (simp add: js_sort_def)
qed

lemma keeps_wanted:
  assumes "ty = None \<or> (\<exists>u. ty = Some u \<and> u \<noteq> [])"
    and "lo = (case startMs of None \<Rightarrow> NoBound | Some s \<Rightarrow> At s)"
    and "hi = (case endMs of None \<Rightarrow> NoBound | Some e \<Rightarrow> At e)"
  shows "keeps toUpperCase parse ty startMs endMs t = wanted toUpperCase parse ty lo hi t"
  using assms
  by (auto simp: keeps_def wanted_def truthy_def split: option.splits)

lemma wanted_parses: "wanted toUpperCase parse ty lo hi t \<Longrightarrow> parse (date t) \<noteq> None"
  by (auto simp: wanted_def split: option.splits)

lemma retrieve_account:
  "snd (retrieveTransactionsInRange toUpperCase parse (Some a) opts) =
     Some (ensureTransactions a)"
  by (simp add: retrieveTransactionsInRange_def Let_def requireNonEmptyString_def
      split: sum.splits option.splits)

lemma digitValue_range:
  assumes "isDigit c"
  shows "0 \<le> digitValue c \<and> digitValue c \<le> 9"
  using assms by (auto simp: isDigit_def digitValue_def)

lemma dateOnly_shape:
  assumes "isDateOnly s"
  obtains y1 y2 y3 y4 s1 c1 c2 s2 d1 d2
  where "s = [y1, y2, y3, y4, s1, c1, c2, s2, d1, d2]"
    and "isDigit y1" "isDigit y2" "isDigit y3" "isDigit y4"
  using assms by (auto simp: isDateOnly_def split: list.splits)

lemma yearOf_range:
  assumes "isDateOnly s"
  shows "0 \<le> yearOf s \<and> yearOf s \<le> 9999"
proof -
  obtain y1 y2 y3 y4 s1 c1 c2 s2 d1 d2
    where s: "s = [y1, y2, y3, y4, s1, c1, c2, s2, d1, d2]"
      and d: "isDigit y1" "isDigit y2" "isDigit y3" "isDigit y4"
    using dateOnly_shape [OF assms] by blast
  have "yearOf s = 1000 * digitValue y1 + 100 * digitValue y2 + 10 * digitValue y3 + digitValue y4"
    by (simp add: s yearOf_def Number_digits_def)
  then show ?thesis
    using digitValue_range [OF d(1)] digitValue_range [OF d(2)]
      digitValue_range [OF d(3)] digitValue_range [OF d(4)]
    by linarith
qed

lemma DayFromYear_range:
  assumes "100 \<le> y" and "y \<le> 9999"
  shows "- 700000 \<le> DayFromYear y \<and> DayFromYear y \<le> 3000000"
proof -
  define q4 r4 q100 r100 q400 r400
    where "q4 = (y - 1969) div 4" and "r4 = (y - 1969) mod 4"
      and "q100 = (y - 1901) div 100" and "r100 = (y - 1901) mod 100"
      and "q400 = (y - 1601) div 400" and "r400 = (y - 1601) mod 400"
  have a: "q4 * 4 + r4 = y - 1969" and b: "q100 * 100 + r100 = y - 1901"
    and c: "q400 * 400 + r400 = y - 1601"
    unfolding q4_def r4_def q100_def r100_def q400_def r400_def
    by (rule div_mult_mod_eq)+
  have r: "0 \<le> r4" "r4 < 4" "0 \<le> r100" "r100 < 100" "0 \<le> r400" "r400 < 400"
    by (simp_all add: r4_def r100_def r400_def)
  have d: "DayFromYear y = 365 * (y - 1970) + q4 - q100 + q400"
    by (simp add: DayFromYear_def q4_def q100_def q400_def)
  have q4: "- 468 \<le> q4" "q4 \<le> 2008"
    using assms a r(1,2) by linarith+
  have q100: "- 19 \<le> q100" "q100 \<le> 81"
    using assms b r(3,4) by linarith+
  have q400: "- 4 \<le> q400" "q400 \<le> 21"
    using assms c r(5,6) by linarith+
  have y: "- 682550 \<le> 365 * (y - 1970)" "365 * (y - 1970) \<le> 2930585"
    using assms by simp_all
  show ?thesis
    unfolding d using q4 q100 q400 y by linarith
qed

lemma daysBeforeMonth_range: "0 \<le> daysBeforeMonth mn leap \<and> daysBeforeMonth mn leap \<le> 335"
  by (simp add: daysBeforeMonth_def Let_def)

lemma Date_UTC_calendar:
  assumes "100 \<le> y" and "y \<le> 9999" and "1 \<le> m" and "m \<le> 12" and "1 \<le> d" and "d \<le> 31"
    and "0 \<le> h" and "h \<le> 23" and "0 \<le> mi" and "mi \<le> 59" and "0 \<le> sec" and "sec \<le> 59"
    and "0 \<le> ms" and "ms \<le> 999"
  shows "Date_UTC y (m - 1) d h mi sec ms =
           Some (utcMidnight y m d + MakeTime h mi sec ms)"
proof -
  have mm: "(m - 1) div 12 = 0" "(m - 1) mod 12 = m - 1"
    using assms(3,4) by simp_all
  have day: "MakeDay y (m - 1) d =
               DayFromYear y + daysBeforeMonth (m - 1) (InLeapYear y) + d - 1"
    by (simp add: MakeDay_def Let_def mm)
  have dr: "- 700000 \<le> MakeDay y (m - 1) d" "MakeDay y (m - 1) d \<le> 3000400"
    using DayFromYear_range [OF assms(1,2)]
      daysBeforeMonth_range [of "m - 1" "InLeapYear y"] assms(5,6)
    unfolding day by linarith+
  have pr: "- 60480000000000 \<le> MakeDay y (m - 1) d * 86400000"
    "MakeDay y (m - 1) d * 86400000 \<le> 259234560000000"
    using dr by simp_all
  have tr: "0 \<le> MakeTime h mi sec ms" "MakeTime h mi sec ms < 86400000"
    using assms(7-14) by (simp_all add: MakeTime_def)
  have "\<bar>MakeDay y (m - 1) d * 86400000 + MakeTime h mi sec ms\<bar> \<le> 8640000000000000"
    using pr tr by linarith
  then have "\<bar>MakeDate (MakeDay y (m - 1) d) (MakeTime h mi sec ms)\<bar>
             \<le> 8640000000000000"
    by (simp add: MakeDate_def msPerDay_def)
  moreover have "utcMidnight y m d = MakeDay y (m - 1) d * msPerDay"
    by (simp add: utcMidnight_def day)
  ultimately show ?thesis
    using assms(1)
    by (simp add: Date_UTC_def TimeClip_def Let_def MakeDate_def)
qed

lemma daysInMonth_le: "daysInMonth y m \<le> 31"
  by (simp add: daysInMonth_def)

lemma dateOnly_resolves:
  assumes "isDateOnly s" and "100 \<le> yearOf s"
    and "realDate (yearOf s) (monthOf s) (dayOf s)"
  shows "parseBoundaryMs parse (Some s) False =
           Inr (Some (utcMidnight (yearOf s) (monthOf s) (dayOf s)))"
    and "parseBoundaryMs parse (Some s) True =
           Inr (Some (utcDayEnd (yearOf s) (monthOf s) (dayOf s)))"
proof -
  have ne: "s \<noteq> []" using assms(1) by (auto simp: isDateOnly_def)
  have y: "yearOf s \<le> 9999" using yearOf_range [OF assms(1)] by simp
  have md: "1 \<le> monthOf s" "monthOf s \<le> 12" "1 \<le> dayOf s" "dayOf s \<le> 31"
    using assms(3) daysInMonth_le [of "yearOf s" "monthOf s"]
    by (simp_all add: realDate_def)
  have a: "Date_UTC (yearOf s) (monthOf s - 1) (dayOf s) 0 0 0 0 =
             Some (utcMidnight (yearOf s) (monthOf s) (dayOf s))"
    using Date_UTC_calendar [OF assms(2) y md, of 0 0 0 0] by (simp add: MakeTime_def)
  have b: "Date_UTC (yearOf s) (monthOf s - 1) (dayOf s) 23 59 59 999 =
             Some (utcDayEnd (yearOf s) (monthOf s) (dayOf s))"
    using Date_UTC_calendar [OF assms(2) y md, of 23 59 59 999]
    by (simp add: MakeTime_def utcDayEnd_def msPerDay_def)
  show "parseBoundaryMs parse (Some s) False =
           Inr (Some (utcMidnight (yearOf s) (monthOf s) (dayOf s)))"
    using ne assms(1) a
    by (simp add: parseBoundaryMs_def Let_def yearOf_def monthOf_def dayOf_def)
  show "parseBoundaryMs parse (Some s) True =
           Inr (Some (utcDayEnd (yearOf s) (monthOf s) (dayOf s)))"
    using ne assms(1) b
    by (simp add: parseBoundaryMs_def Let_def yearOf_def monthOf_def dayOf_def)
qed

text \<open>
  A bound that is absent, empty, a day of the calendar in a year from 0100 on, or not of
  the form \<open>YYYY-MM-DD\<close> is resolved by the code as the specification has it.
\<close>

lemma parseBoundaryMs_boundOf:
  assumes "calendarDay v"
  shows "parseBoundaryMs parse v isEnd =
     (case boundOf parse isEnd v of
        NoBound \<Rightarrow> Inr None
      | At ms \<Rightarrow> Inr (Some ms)
      | Unresolved \<Rightarrow> Inl (Error (''Invalid date: '' @ the v)))"
proof (cases v)
  case None
  then show ?thesis by (simp add: parseBoundaryMs_def boundOf_def)
next
  case (Some s)
  show ?thesis
  proof (cases "isDateOnly s")
    case True
    then have c: "100 \<le> yearOf s" "realDate (yearOf s) (monthOf s) (dayOf s)"
      using assms Some by (simp_all add: calendarDay_def)
    have ne: "s \<noteq> []" using True by (auto simp: isDateOnly_def)
    show ?thesis
      using dateOnly_resolves [OF True c, of parse] True ne
      by (cases isEnd) (simp_all add: Some boundOf_def)
  next
    case False
    then show ?thesis
      by (simp add: Some parseBoundaryMs_def boundOf_def split: option.splits)
  qed
qed

text \<open>
  Retrieval with bounds of that kind, for every \<open>toUpperCase\<close> that makes no string but
  the empty one empty. The call raises exactly when a bound has no time value, the start
  is after the end, or a type is given and blank; the account's transactions and balance
  are as before either way. What it returns holds exactly the transactions with (no type
  filter, or the upper-cased type equal to the trimmed, upper-cased filter), a date that
  parses, no start bound or a date at or after it, and no end bound or a date at or
  before it, each as often as stored, ordered by date with the most recent first.
\<close>

lemma retrieveTransactionsInRange_calendar:
  assumes "calendarDay (startDate opts)" and "calendarDay (endDate opts)"
    and "\<forall>s. toUpperCase s = [] \<longrightarrow> s = []"
  shows "let r = retrieveTransactionsInRange toUpperCase parse (Some a) opts;
             lo = boundOf parse False (startDate opts);
             hi = boundOf parse True (endDate opts)
         in ((\<exists>e. fst r = Inl e) =
               (lo = Unresolved \<or> hi = Unresolved \<or> (\<exists>s e. lo = At s \<and> hi = At e \<and> e < s) \<or>
                (\<exists>ty. opt_type opts = Some ty \<and> trim ty = []))) \<and>
            (\<exists>a'. snd r = Some a' \<and> txns a' = txns a \<and> balance a' = balance a) \<and>
            (\<forall>res. fst r = Inr res \<longrightarrow>
               mset res =
                 mset (filter (wanted toUpperCase parse (typeFilter toUpperCase opts) lo hi)
                         (txns a)) \<and>
               newestFirstOrder parse res)"
proof -
  let ?r = "retrieveTransactionsInRange toUpperCase parse (Some a) opts"
  let ?lo = "boundOf parse False (startDate opts)"
  let ?hi = "boundOf parse True (endDate opts)"
  let ?bad = "?lo = Unresolved \<or> ?hi = Unresolved \<or> (\<exists>s e. ?lo = At s \<and> ?hi = At e \<and> e < s) \<or>
                (\<exists>ty. opt_type opts = Some ty \<and> trim ty = [])"
  note ps = parseBoundaryMs_boundOf [OF assms(1), of parse False]
  note pe = parseBoundaryMs_boundOf [OF assms(2), of parse True]
  have acct: "\<exists>a'. snd ?r = Some a' \<and> txns a' = txns a \<and> balance a' = balance a"
    by (simp add: retrieve_account)
  show ?thesis
  proof (cases ?bad)
    case True
    then have "\<exists>e. fst ?r = Inl e"
      using ps pe
      by (auto simp: retrieveTransactionsInRange_def Let_def requireNonEmptyString_def
          split: boundary.splits option.splits)
    then show ?thesis
      unfolding Let_def using True acct by auto
  next
    case False
    define startMs where "startMs = (case ?lo of At s \<Rightarrow> Some s | _ \<Rightarrow> None)"
    define endMs where "endMs = (case ?hi of At e \<Rightarrow> Some e | _ \<Rightarrow> None)"
    have b: "parseBoundaryMs parse (startDate opts) False = Inr startMs"
      "parseBoundaryMs parse (endDate opts) True = Inr endMs"
      using False ps pe by (auto simp: startMs_def endMs_def split: boundary.splits)
    have lo: "?lo = (case startMs of None \<Rightarrow> NoBound | Some s \<Rightarrow> At s)"
      and hi: "?hi = (case endMs of None \<Rightarrow> NoBound | Some e \<Rightarrow> At e)"
      using False by (auto simp: startMs_def endMs_def split: boundary.splits)
    have ord: "\<not> (case (startMs, endMs) of (Some s, Some e) \<Rightarrow> s > e | _ \<Rightarrow> False)"
      using False by (auto simp: startMs_def endMs_def split: boundary.splits)
    have ty: "typeFilter toUpperCase opts = None \<or>
              (\<exists>u. typeFilter toUpperCase opts = Some u \<and> u \<noteq> [])"
      using False assms(3) by (auto simp: typeFilter_def split: option.splits)
    have k: "keeps toUpperCase parse (typeFilter toUpperCase opts) startMs endMs =
             wanted toUpperCase parse (typeFilter toUpperCase opts) ?lo ?hi"
      using keeps_wanted [OF ty lo hi] by blast
    let ?kept = "filter (wanted toUpperCase parse (typeFilter toUpperCase opts) ?lo ?hi) (txns a)"
    have res: "fst ?r = Inr (js_sort (newestFirst parse) ?kept)"
    proof (cases "opt_type opts")
      case None
      then show ?thesis
        using b ord k
        by (simp add: retrieveTransactionsInRange_def Let_def typeFilter_def)
    next
      case (Some t)
      then have "trim t \<noteq> []" using False by simp
      then show ?thesis
        using b ord k Some
        by (simp add: retrieveTransactionsInRange_def Let_def typeFilter_def
            requireNonEmptyString_def)
    qed
    have "\<forall>y\<in>set ?kept. parse (date y) \<noteq> None"
      using wanted_parses by auto
    then have sorted: "newestFirstOrder parse (js_sort (newestFirst parse) ?kept)"
      by (rule newestFirst_js_sort)
    have ne: "\<not> (\<exists>e. fst ?r = Inl e)" using res by simp
    have main: "\<forall>res. fst ?r = Inr res \<longrightarrow> mset res = mset ?kept \<and> newestFirstOrder parse res"
      using res sorted by (auto simp: mset_js_sort)
    show ?thesis
      unfolding Let_def using False ne acct main by blast
  qed
qed

lemma november_results:
  "fst (retrieveTransactionsInRange asciiUpperCase clock (Some novemberLedger) novemberDeposits) =
     Inr [depositRecord ''2023-11-15'' (Finite 200) (Finite 300)]"
  "fst (retrieveTransactionsInRange asciiUpperCase clock (Some novemberLedger) noFilter) =
     Inr [withdrawalRecord ''2023-11-20'' (Finite 50) (Finite 250),
          depositRecord ''2023-11-15'' (Finite 200) (Finite 300)]"
  "boundOf clock False (startDate novemberDeposits) = At 1698796800000"
  "boundOf clock True (endDate novemberDeposits) = At 1701388799999"
  "calendarDay (startDate novemberDeposits)" "calendarDay (endDate novemberDeposits)"
  by code_simp+

text \<open>
  C5. With the start \<open>0050-01-01\<close> the code resolves the bound through
  \<open>Date.UTC(50, 0, 1)\<close>, which takes a year from 0 to 99 as 1900 + year and gives
  00:00 UTC of 1950-01-01. A deposit dated 1900-01-01 lies after 00:00 UTC of 0050-01-01,
  the bound that the claim names, and is to be returned; the code returns nothing. The
  same date as a full ISO string, and the dates of the transactions, go through
  \<open>new Date\<close>, which takes the year as written. For years from 0100 on the code does as
  the claim says (\<open>retrieveTransactionsInRange_calendar\<close>). Besides, a type given as the
  empty string raises "Type is required." where the browser bundle's copy, and the
  specification with it, takes it as no filter.
\<close>

theorem retrieveTransactionsInRange_year_below_100:
  "txns oldLedger = [depositRecord ''1900-01-01T00:00:00.000Z'' (Finite 200) (Finite 300)] \<and>
   clock ''1900-01-01T00:00:00.000Z'' = Some (- 2208988800000) \<and>
   startDate sinceYear50 = Some ''0050-01-01'' \<and> isDateOnly ''0050-01-01'' \<and>
   yearOf ''0050-01-01'' = 50 \<and> monthOf ''0050-01-01'' = 1 \<and> dayOf ''0050-01-01'' = 1 \<and>
   utcMidnight 50 1 1 = - 60589296000000 \<and>
   boundOf clock False (startDate sinceYear50) = At (- 60589296000000) \<and>
   wanted asciiUpperCase clock (typeFilter asciiUpperCase sinceYear50)
     (boundOf clock False (startDate sinceYear50)) (boundOf clock True (endDate sinceYear50))
     (depositRecord ''1900-01-01T00:00:00.000Z'' (Finite 200) (Finite 300)) \<and>
   fst (retrieveTransactionsInRange asciiUpperCase clock (Some oldLedger) sinceYear50) = Inr [] \<and>
   parseBoundaryMs clock (startDate sinceYear50) False = Inr (Some (- 631152000000)) \<and>
   Date_UTC 50 0 1 0 0 0 0 = Some (utcMidnight 1950 1 1) \<and>
   fst (retrieveTransactionsInRange asciiUpperCase clock (Some oldLedger)
          \<lparr>startDate = None, endDate = None, opt_type = Some []\<rparr>) =
     Inl (Error ''Type is required.'')"
  by code_simp

end
